theory Spec2Isabelle
  imports Complex_Main "HOL-Library.AList"
begin

section \<open>JavaScript values\<close>

text \<open>
  The data of the front end is what \<^verbatim>\<open>response.json()\<close> yields: JSON values, plus
  \<^verbatim>\<open>undefined\<close> for a property that is not there. An object is an association list
  of its own enumerable properties (the first binding of a key is the key's value; the
  parser never yields a key twice). Numbers are modelled as reals: the rounding of IEEE
  doubles is outside the model, and JSON has neither NaN nor an infinity.
\<close>

datatype jsval =
    Undefined
  | Null
  | Bool bool
  | Num real
  | Str string
  | Arr "jsval list"
  | Obj "(string \<times> jsval) list"

text \<open>What the source throws, rejections of promises included; the string is \<^verbatim>\<open>err.message\<close>.\<close>

datatype exn =
    TypeError string
  | SyntaxError string
  | Error string

fun message :: "exn \<Rightarrow> string" where
  "message (TypeError m) = m"
| "message (SyntaxError m) = m"
| "message (Error m) = m"

text \<open>Truthiness, as \<^verbatim>\<open>!v\<close>, \<^verbatim>\<open>a || b\<close>, \<^verbatim>\<open>a && b\<close> and \<^verbatim>\<open>c ? a : b\<close> test it.\<close>

fun truthy :: "jsval \<Rightarrow> bool" where
  "truthy Undefined = False"
| "truthy Null = False"
| "truthy (Bool b) = b"
| "truthy (Num x) = (x \<noteq> 0)"
| "truthy (Str s) = (s \<noteq> [])"
| "truthy (Arr xs) = True"
| "truthy (Obj kvs) = True"

text \<open>\<^verbatim>\<open>a || b\<close>\<close>

definition or_else :: "jsval \<Rightarrow> jsval \<Rightarrow> jsval" where
  "or_else a b = (if truthy a then a else b)"

text \<open>The decimal numeral of an array index, as a template literal prints it.\<close>

definition digit :: "nat \<Rightarrow> char" where
  "digit d = ''0123456789'' ! d"

fun decimal :: "nat \<Rightarrow> string" where
  "decimal n = (if n < 10 then [digit n] else decimal (n div 10) @ [digit (n mod 10)])"

declare decimal.simps [simp del]

text \<open>
  \<^verbatim>\<open>v.p\<close> for a property name \<open>p\<close> that is an identifier of the source (never an
  index, \<^verbatim>\<open>length\<close> or another inherited name): reading from \<^verbatim>\<open>undefined\<close> or
  \<^verbatim>\<open>null\<close> throws, an object yields the property or \<^verbatim>\<open>undefined\<close>, every other
  value has no such property. The message is the one V8 prints.
\<close>

definition cannot_read :: "string \<Rightarrow> string \<Rightarrow> string" where
  "cannot_read what p = ''Cannot read properties of '' @ what @ '' (reading '' @ [CHR 0x27] @ p @ [CHR 0x27] @ '')''"

fun get_prop :: "jsval \<Rightarrow> string \<Rightarrow> exn + jsval" where
  "get_prop Undefined p = Inl (TypeError (cannot_read ''undefined'' p))"
| "get_prop Null p = Inl (TypeError (cannot_read ''null'' p))"
| "get_prop (Obj kvs) p = Inr (case map_of kvs p of None \<Rightarrow> Undefined | Some x \<Rightarrow> x)"
| "get_prop v p = Inr Undefined"

text \<open>\<^verbatim>\<open>v[i]\<close> for a number \<open>i\<close> that is an array index.\<close>

fun get_idx :: "jsval \<Rightarrow> nat \<Rightarrow> exn + jsval" where
  "get_idx Undefined i = Inl (TypeError (cannot_read ''undefined'' (decimal i)))"
| "get_idx Null i = Inl (TypeError (cannot_read ''null'' (decimal i)))"
| "get_idx (Arr xs) i = Inr (if i < length xs then xs ! i else Undefined)"
| "get_idx (Str s) i = Inr (if i < length s then Str [s ! i] else Undefined)"
| "get_idx (Obj kvs) i = Inr (case map_of kvs (decimal i) of None \<Rightarrow> Undefined | Some x \<Rightarrow> x)"
| "get_idx v i = Inr Undefined"

text \<open>
  The own enumerable properties that an object spread \<^verbatim>\<open>{...v}\<close> copies:
  those of an object, the indexed elements of an array or a string, nothing otherwise
  (spreading \<^verbatim>\<open>undefined\<close> or \<^verbatim>\<open>null\<close> is allowed and copies nothing).
\<close>

fun own_props :: "jsval \<Rightarrow> (string \<times> jsval) list" where
  "own_props (Obj kvs) = kvs"
| "own_props (Arr xs) = zip (map decimal [0..<length xs]) xs"
| "own_props (Str s) = zip (map decimal [0..<length s]) (map (\<lambda>c. Str [c]) s)"
| "own_props v = []"

text \<open>
  \<^verbatim>\<open>{...rest, k: v}\<close>: the key is overwritten where it stands, or added last.
\<close>

definition set_prop :: "string \<Rightarrow> jsval \<Rightarrow> (string \<times> jsval) list \<Rightarrow> (string \<times> jsval) list" where
  "set_prop k v kvs = AList.update k v kvs"

text \<open>The own property \<open>k\<close> of a value, if it has one.\<close>

definition own :: "jsval \<Rightarrow> string \<Rightarrow> jsval option" where
  "own v k = map_of (own_props v) k"

section \<open>Feature Annotator and Layer Renderer (MiningPitVisualizer.jsx)\<close>

text \<open>
  The callback of \<^verbatim>\<open>features.map\<close> in \<^verbatim>\<open>addDataToFeatures\<close>, lines 22 to 34.
  \<open>data\<close> is the component's prop, which the closure reads.
\<close>

definition annotate :: "jsval \<Rightarrow> bool \<Rightarrow> jsval \<Rightarrow> nat \<Rightarrow> exn + jsval" where
  "annotate data isIllegal feature index =
     (case (if isIllegal
            then (case get_prop data ''illegal_operations'' of
                    Inl e \<Rightarrow> Inl e
                  | Inr ops \<Rightarrow> get_idx (or_else ops (Arr [])) index)
            else Inr Null) of
        Inl e \<Rightarrow> Inl e
      | Inr operation \<Rightarrow>
          (case get_prop feature ''properties'' of
             Inl e \<Rightarrow> Inl e
           | Inr props \<Rightarrow>
               (case (if truthy operation then get_prop operation ''avg_depth_m'' else Inr (Num 50)) of
                  Inl e \<Rightarrow> Inl e
                | Inr depth \<Rightarrow>
                    (case (if truthy operation then get_prop operation ''volume_m3'' else Inr (Str ''N/A'')) of
                       Inl e \<Rightarrow> Inl e
                     | Inr volume \<Rightarrow>
                         Inr (Obj (set_prop ''properties''
                           (Obj (set_prop ''name''
                                   (Str ((if isIllegal then ''Illegal Pit #'' else ''Legal Area #'') @ decimal (index + 1)))
                                (set_prop ''volume'' volume
                                (set_prop ''depth'' depth
                                (set_prop ''status'' (Str (if isIllegal then ''illegal'' else ''legal''))
                                (own_props props))))))
                           (own_props feature)))))))"

text \<open>\<^verbatim>\<open>xs.map((x, index) => f x index)\<close>, from index \<open>i\<close> on; the first throw ends it.\<close>

fun map_indexed :: "(jsval \<Rightarrow> nat \<Rightarrow> exn + jsval) \<Rightarrow> nat \<Rightarrow> jsval list \<Rightarrow> exn + jsval list" where
  "map_indexed f i [] = Inr []"
| "map_indexed f i (x # xs) =
     (case f x i of
        Inl e \<Rightarrow> Inl e
      | Inr y \<Rightarrow> (case map_indexed f (Suc i) xs of Inl e \<Rightarrow> Inl e | Inr ys \<Rightarrow> Inr (y # ys)))"

definition addDataToFeatures :: "jsval \<Rightarrow> jsval \<Rightarrow> bool \<Rightarrow> exn + jsval" where
  "addDataToFeatures data featureCollection isIllegal =
     (if \<not> truthy featureCollection then Inr Null
      else case get_prop featureCollection ''features'' of
        Inl e \<Rightarrow> Inl e
      | Inr features \<Rightarrow>
          if \<not> truthy features then Inr Null
          else (case features of
                  Arr xs \<Rightarrow>
                    (case map_indexed (annotate data isIllegal) 0 xs of
                       Inl e \<Rightarrow> Inl e
                     | Inr ys \<Rightarrow> Inr (Obj (set_prop ''features'' (Arr ys) (own_props featureCollection))))
                | _ \<Rightarrow> Inl (TypeError ''featureCollection.features.map is not a function'')))"

text \<open>
  What the component renders: \<^verbatim>\<open>null\<close>, or a fragment of the sources it registers
  with the map, each with its layers. A child \<^verbatim>\<open>{x && <Source .../>}\<close> is there only
  when \<open>x\<close> is truthy.
\<close>

record layer =
  layer_id :: string
  layer_type :: string
  layer_paint :: "(string \<times> jsval) list"

record source =
  source_id :: string
  source_type :: string
  source_data :: jsval
  source_layers :: "layer list"

datatype element = RenderNull | Fragment "source list"

definition layerPaint3D :: "string \<Rightarrow> (string \<times> jsval) list" where
  "layerPaint3D color =
     [(''fill-extrusion-color'', Str color),
      (''fill-extrusion-height'', Arr [Str ''*'', Arr [Str ''get'', Str ''depth''], Num 10]),
      (''fill-extrusion-base'', Num 0),
      (''fill-extrusion-opacity'', Num 0.85)]"

definition layerPaint2D :: "string \<Rightarrow> (string \<times> jsval) list" where
  "layerPaint2D color =
     [(''fill-color'', Str color),
      (''fill-opacity'', Num 0.6),
      (''fill-outline-color'', Str ''#ffffff'')]"

definition illegal_source :: "jsval \<Rightarrow> source" where
  "illegal_source d =
     \<lparr>source_id = ''illegal-pits'', source_type = ''geojson'', source_data = d,
      source_layers =
        [\<lparr>layer_id = ''illegal-pits-3d'', layer_type = ''fill-extrusion'', layer_paint = layerPaint3D ''#B71C1C''\<rparr>,
         \<lparr>layer_id = ''illegal-pits-2d'', layer_type = ''fill'', layer_paint = layerPaint2D ''#FF6B6B''\<rparr>]\<rparr>"

definition legal_source :: "jsval \<Rightarrow> source" where
  "legal_source d =
     \<lparr>source_id = ''legal-pits'', source_type = ''geojson'', source_data = d,
      source_layers =
        [\<lparr>layer_id = ''legal-pits-3d'', layer_type = ''fill-extrusion'', layer_paint = layerPaint3D ''#1B5E20''\<rparr>,
         \<lparr>layer_id = ''legal-pits-2d'', layer_type = ''fill'', layer_paint = layerPaint2D ''#50C878''\<rparr>]\<rparr>"

text \<open>
  The component, lines 8 to 73. The prop \<open>data\<close> is \<^verbatim>\<open>undefined\<close> when the caller
  passes none. The illegal collection is annotated first (line 38), the legal one second.
\<close>

definition MiningPitVisualizer :: "jsval \<Rightarrow> exn + element" where
  "MiningPitVisualizer data =
     (if \<not> truthy data then Inr RenderNull
      else case get_prop data ''geospatial_data'' of
        Inl e \<Rightarrow> Inl e
      | Inr geospatial_data \<Rightarrow>
          if \<not> truthy geospatial_data then Inr RenderNull
          else (case get_prop geospatial_data ''legal_polygons'' of
            Inl e \<Rightarrow> Inl e
          | Inr legal_polygons \<Rightarrow>
              (case get_prop geospatial_data ''illegal_polygons'' of
                 Inl e \<Rightarrow> Inl e
               | Inr illegal_polygons \<Rightarrow>
                   (case addDataToFeatures data illegal_polygons True of
                      Inl e \<Rightarrow> Inl e
                    | Inr illegalPitsWithData \<Rightarrow>
                        (case addDataToFeatures data legal_polygons False of
                           Inl e \<Rightarrow> Inl e
                         | Inr legalPitsWithData \<Rightarrow>
                             Inr (Fragment
                               ((if truthy illegalPitsWithData then [illegal_source illegalPitsWithData] else []) @
                                (if truthy legalPitsWithData then [legal_source legalPitsWithData] else []))))))))"

section \<open>View state, shared by both pages\<close>

text \<open>
  The easing closures of MapPage.jsx, by the place that builds them; \<open>ease\<close> is the value
  a closure returns at normalised time \<open>t\<close>, and \<open>reports_progress\<close> tells whether it
  also calls \<^verbatim>\<open>setAnimationProgress\<close> with that value.
\<close>

datatype easing =
    ToggleEasing
  | FlyEasing
  | ModeEasing
  | NudgeEasing

fun ease :: "easing \<Rightarrow> real \<Rightarrow> real" where
  "ease ToggleEasing t = 1 - (1 - t) ^ 2"
| "ease FlyEasing t = 1 - (1 - t) ^ 3"
| "ease ModeEasing t = 1 - (1 - t) ^ 2"
| "ease NudgeEasing t = t * (2 - t)"

fun reports_progress :: "easing \<Rightarrow> bool" where
  "reports_progress FlyEasing = True"
| "reports_progress ModeEasing = True"
| "reports_progress e = False"

text \<open>
  The camera. Longitude and latitude hold whatever the response's first coordinate holds
  (part 000, lines 62 and 63), so they are values; the other fields are only ever numbers.
\<close>

record view_state =
  longitude :: jsval
  latitude :: jsval
  zoom :: real
  pitch :: real
  bearing :: real
  transitionDuration :: "real option"
  transitionEasing :: "easing option"

record lng_lat =
  lng :: real
  lat :: real

record popup_info =
  lngLat :: lng_lat
  properties :: jsval

text \<open>A click on the map: where, and the rendered features under it, if the map reports any.\<close>

record map_click =
  click_lngLat :: lng_lat
  click_features :: "jsval list option"

record ui_state =
  viewState :: view_state
  popupInfo :: "popup_info option"

section \<open>Upload/Analysis Client (part 000, the App component)\<close>

text \<open>
  \<^verbatim>\<open>String(v)\<close>, which \<^verbatim>\<open>new Error(v)\<close> applies to its argument. How a number prints
  is the engine's business: \<open>num_str\<close> stands for it.
\<close>

fun join :: "string list \<Rightarrow> string" where
  "join [] = []"
| "join [s] = s"
| "join (s # t # ss) = s @ '','' @ join (t # ss)"

fun to_string :: "(real \<Rightarrow> string) \<Rightarrow> jsval \<Rightarrow> string" where
  "to_string num_str Undefined = ''undefined''"
| "to_string num_str Null = ''null''"
| "to_string num_str (Bool b) = (if b then ''true'' else ''false'')"
| "to_string num_str (Num x) = num_str x"
| "to_string num_str (Str s) = s"
| "to_string num_str (Arr xs) =
     join (map (\<lambda>x. if x = Undefined \<or> x = Null then [] else to_string num_str x) xs)"
| "to_string num_str (Obj kvs) = ''[object Object]''"

text \<open>
  The array spread \<^verbatim>\<open>[...v]\<close> of a truthy value or of \<^verbatim>\<open>[]\<close>: an array and a
  string are iterable, no other JSON value is.
\<close>

fun spread_array :: "jsval \<Rightarrow> exn + jsval list" where
  "spread_array (Arr xs) = Inr xs"
| "spread_array (Str s) = Inr (map (\<lambda>c. Str [c]) s)"
| "spread_array v = Inl (TypeError ''object is not iterable'')"

text \<open>
  The state of \<^verbatim>\<open>App\<close>: its five \<^verbatim>\<open>useState\<close> slots, the alerts shown, the
  requests sent, and the error of a state updater that threw while React rendered
  (React 18 runs an updater in the next render, outside the handler's \<^verbatim>\<open>try\<close>).
  \<open>analysisResult\<close> is \<open>Null\<close> while unset, \<open>error\<close> is \<open>None\<close> for \<^verbatim>\<open>null\<close>.
\<close>

record http_request =
  url :: string
  http_method :: string
  form :: "(string \<times> string) list"

record app_state = ui_state +
  analysisResult :: jsval
  isLoading :: bool
  error :: "string option"
  alerts :: "string list"
  sent :: "http_request list"
  render_error :: "exn option"

definition App_init :: app_state where
  "App_init =
     \<lparr>viewState = \<lparr>longitude = Num 86.44, latitude = Num 23.75, zoom = 10, pitch = 45, bearing = - 30,
                   transitionDuration = None, transitionEasing = None\<rparr>,
      popupInfo = None, analysisResult = Null, isLoading = False, error = None,
      alerts = [], sent = [], render_error = None\<rparr>"

text \<open>
  How the request ends: \<^verbatim>\<open>fetch\<close> rejects, or resolves to a response with its
  \<^verbatim>\<open>ok\<close> flag and the outcome of \<^verbatim>\<open>response.json()\<close> (\<open>Inl\<close> when that rejects).
\<close>

datatype fetch_result =
    Rejected exn
  | Response bool "exn + jsval"

text \<open>
  \<^verbatim>\<open>handleAnalysis\<close> up to the \<^verbatim>\<open>await fetch\<close>, lines 26 to 43. The file is the name
  of the selected file, \<open>None\<close> when \<^verbatim>\<open>files[0]\<close> is undefined.
\<close>

definition handleAnalysis_begin :: "string option \<Rightarrow> app_state \<Rightarrow> app_state" where
  "handleAnalysis_begin file s =
     (case file of
        None \<Rightarrow> s\<lparr>alerts := alerts s @ [''Please select a boundary file first.'']\<rparr>
      | Some f \<Rightarrow>
          s\<lparr>isLoading := True, error := None, analysisResult := Null,
            sent := sent s @ [\<lparr>url = ''http://127.0.0.1:5000/analyze'', http_method = ''POST'',
                               form = [(''boundaryFile'', f)]\<rparr>]\<rparr>)"

text \<open>Sequencing of steps that may throw: the first throw is the result.\<close>

definition and_then :: "exn + 'a \<Rightarrow> ('a \<Rightarrow> exn + 'b) \<Rightarrow> exn + 'b" where
  "and_then m f = (case m of Inl e \<Rightarrow> Inl e | Inr x \<Rightarrow> f x)"

text \<open>Lines 53 to 56: the features of both collections, illegal first.\<close>

definition allFeatures :: "jsval \<Rightarrow> exn + jsval list" where
  "allFeatures results =
     and_then (get_prop results ''geospatial_data'') (\<lambda>gd.
     and_then (get_prop gd ''illegal_polygons'') (\<lambda>ip.
     and_then (get_prop ip ''features'') (\<lambda>ifs.
     and_then (spread_array (or_else ifs (Arr []))) (\<lambda>xs.
     and_then (get_prop gd ''legal_polygons'') (\<lambda>lp.
     and_then (get_prop lp ''features'') (\<lambda>lfs.
     and_then (spread_array (or_else lfs (Arr []))) (\<lambda>ys.
     Inr (xs @ ys))))))))"

text \<open>Line 59: \<^verbatim>\<open>feature.geometry.coordinates[0][0]\<close>.\<close>

definition firstCoord :: "jsval \<Rightarrow> exn + jsval" where
  "firstCoord feature =
     and_then (get_prop feature ''geometry'') (\<lambda>g.
     and_then (get_prop g ''coordinates'') (\<lambda>cs.
     and_then (get_idx cs 0) (\<lambda>ring.
     get_idx ring 0)))"

text \<open>The updater of lines 60 to 66, which reads the coordinate when React runs it.\<close>

definition recenter :: "jsval \<Rightarrow> view_state \<Rightarrow> exn + view_state" where
  "recenter c prev =
     and_then (get_idx c 0) (\<lambda>x.
     and_then (get_idx c 1) (\<lambda>y.
     Inr (prev\<lparr>longitude := x, latitude := y, zoom := 12, transitionDuration := Some 2000\<rparr>)))"

text \<open>\<^verbatim>\<open>setViewState(updater)\<close>: an updater that throws leaves the slot as it is and fails the render.\<close>

definition setViewState_with :: "(view_state \<Rightarrow> exn + view_state) \<Rightarrow> app_state \<Rightarrow> app_state" where
  "setViewState_with updater s =
     (case updater (viewState s) of
        Inl e \<Rightarrow> s\<lparr>render_error := Some e\<rparr>
      | Inr v \<Rightarrow> s\<lparr>viewState := v\<rparr>)"

text \<open>
  The \<^verbatim>\<open>try\<close> block after the request has settled, lines 45 to 67: the state it
  leaves, and what it threw, if it threw.
\<close>

definition try_block :: "(real \<Rightarrow> string) \<Rightarrow> fetch_result \<Rightarrow> app_state \<Rightarrow> app_state \<times> exn option" where
  "try_block num_str r s =
     (case r of
        Rejected e \<Rightarrow> (s, Some e)
      | Response ok body \<Rightarrow>
          if \<not> ok then
            (case body of
               Inl e \<Rightarrow> (s, Some e)
             | Inr errData \<Rightarrow>
                 (case get_prop errData ''details'' of
                    Inl e \<Rightarrow> (s, Some e)
                  | Inr details \<Rightarrow>
                      (s, Some (Error (to_string num_str (or_else details (Str ''Backend analysis failed'')))))))
          else
            (case body of
               Inl e \<Rightarrow> (s, Some e)
             | Inr results \<Rightarrow>
                 (let s1 = s\<lparr>analysisResult := results\<rparr> in
                  case allFeatures results of
                    Inl e \<Rightarrow> (s1, Some e)
                  | Inr fs \<Rightarrow>
                      if length fs > 0 then
                        (case firstCoord (fs ! 0) of
                           Inl e \<Rightarrow> (s1, Some e)
                         | Inr c \<Rightarrow> (setViewState_with (recenter c) s1, None))
                      else (s1, None))))"

text \<open>
  \<^verbatim>\<open>handleAnalysis\<close> from the moment the request settles: the \<^verbatim>\<open>try\<close> block, the
  \<^verbatim>\<open>catch\<close> (lines 70 and 71; the console line changes no state) and the
  \<^verbatim>\<open>finally\<close> (line 73).
\<close>

definition handleAnalysis_settle :: "(real \<Rightarrow> string) \<Rightarrow> fetch_result \<Rightarrow> app_state \<Rightarrow> app_state" where
  "handleAnalysis_settle num_str r s =
     (case try_block num_str r s of
        (s1, None) \<Rightarrow> s1\<lparr>isLoading := False\<rparr>
      | (s1, Some err) \<Rightarrow> s1\<lparr>error := Some (message err), isLoading := False\<rparr>)"

text \<open>One whole run of \<^verbatim>\<open>handleAnalysis\<close> with nothing else in between.\<close>

definition handleAnalysis :: "(real \<Rightarrow> string) \<Rightarrow> string option \<Rightarrow> fetch_result \<Rightarrow> app_state \<Rightarrow> app_state" where
  "handleAnalysis num_str file r s =
     (case file of
        None \<Rightarrow> handleAnalysis_begin file s
      | Some f \<Rightarrow> handleAnalysis_settle num_str r (handleAnalysis_begin file s))"

text \<open>The other handlers of \<^verbatim>\<open>App\<close>: the map click (lines 77 to 85), \<^verbatim>\<open>onMove\<close> and the popup's \<^verbatim>\<open>onClose\<close>.\<close>

definition App_handleMapClick :: "map_click \<Rightarrow> app_state \<Rightarrow> app_state" where
  "App_handleMapClick e s =
     (case click_features e of
        None \<Rightarrow> s
      | Some [] \<Rightarrow> s
      | Some (feature # rest) \<Rightarrow>
          (case get_prop feature ''properties'' of
             Inl err \<Rightarrow> s
           | Inr ps \<Rightarrow> s\<lparr>popupInfo := Some \<lparr>lngLat = click_lngLat e, properties = ps\<rparr>\<rparr>))"

definition onMove :: "view_state \<Rightarrow> 'a ui_state_scheme \<Rightarrow> 'a ui_state_scheme" where
  "onMove v s = s\<lparr>viewState := v\<rparr>"

definition onClose :: "'a ui_state_scheme \<Rightarrow> 'a ui_state_scheme" where
  "onClose s = s\<lparr>popupInfo := None\<rparr>"

text \<open>Everything that can happen to \<^verbatim>\<open>App\<close>, with the two halves of an analysis apart.\<close>

datatype app_event =
    AnalyzeClicked "string option"
  | RequestSettled fetch_result
  | MapClicked map_click
  | Moved view_state
  | PopupClosed

fun app_step :: "(real \<Rightarrow> string) \<Rightarrow> app_event \<Rightarrow> app_state \<Rightarrow> app_state" where
  "app_step num_str (AnalyzeClicked file) s = handleAnalysis_begin file s"
| "app_step num_str (RequestSettled r) s = handleAnalysis_settle num_str r s"
| "app_step num_str (MapClicked e) s = App_handleMapClick e s"
| "app_step num_str (Moved v) s = onMove v s"
| "app_step num_str PopupClosed s = onClose s"

section \<open>View-State Controller (MapPage.jsx)\<close>

text \<open>
  The callbacks handed to \<^verbatim>\<open>setTimeout\<close>: the one of \<^verbatim>\<open>toggle3DMode\<close> clears
  \<open>isAnimating\<close>; those of \<^verbatim>\<open>flyToMine\<close> and \<^verbatim>\<open>setViewMode\<close> also set the progress to 1.
\<close>

datatype timeout_callback =
    ClearAnimating
  | FinishAnimation

text \<open>
  The state of \<^verbatim>\<open>MapPage\<close>: its six \<^verbatim>\<open>useState\<close> slots and the timeouts it has
  registered (callback and delay in milliseconds), oldest first.
\<close>

record page_state = ui_state +
  currentViewMode :: string
  isAnimating :: bool
  animationProgress :: real
  is3DEnabled :: bool
  timeouts :: "(timeout_callback \<times> nat) list"

definition MapPage_init :: page_state where
  "MapPage_init =
     \<lparr>viewState = \<lparr>longitude = Num 78.98, latitude = Num 20.58, zoom = 10, pitch = 0, bearing = 0,
                   transitionDuration = None, transitionEasing = None\<rparr>,
      popupInfo = None, currentViewMode = ''top-down'', isAnimating = False,
      animationProgress = 0, is3DEnabled = True, timeouts = []\<rparr>"

definition setTimeout :: "timeout_callback \<Rightarrow> nat \<Rightarrow> page_state \<Rightarrow> page_state" where
  "setTimeout cb ms s = s\<lparr>timeouts := timeouts s @ [(cb, ms)]\<rparr>"

fun run_callback :: "timeout_callback \<Rightarrow> page_state \<Rightarrow> page_state" where
  "run_callback ClearAnimating s = s\<lparr>isAnimating := False\<rparr>"
| "run_callback FinishAnimation s = s\<lparr>isAnimating := False, animationProgress := 1\<rparr>"

text \<open>
  The orbital rotation (lines 134 to 161) runs on the clock and on animation frames; it is
  not part of this model. \<^verbatim>\<open>toggle3DMode\<close>, lines 24 to 56:
\<close>

definition toggle3DMode :: "page_state \<Rightarrow> page_state" where
  "toggle3DMode s =
     (let enable3D = \<not> is3DEnabled s;
          s1 = s\<lparr>is3DEnabled := enable3D, isAnimating := True\<rparr>;
          s2 = (if enable3D
                then s1\<lparr>viewState := (viewState s1)\<lparr>pitch := 45, bearing := - 30, zoom := 11.2,
                                        transitionDuration := Some 1500,
                                        transitionEasing := Some ToggleEasing\<rparr>,
                        currentViewMode := ''perspective''\<rparr>
                else s1\<lparr>viewState := (viewState s1)\<lparr>pitch := 0, bearing := 0, zoom := 10.5,
                                        transitionDuration := Some 1500,
                                        transitionEasing := Some ToggleEasing\<rparr>,
                        currentViewMode := ''top-down''\<rparr>)
      in setTimeout ClearAnimating 1500 s2)"

text \<open>Lines 59 to 82. A throw while the new view state is built ends the handler there.\<close>

definition flyToMine :: "lng_lat \<Rightarrow> jsval \<Rightarrow> page_state \<Rightarrow> page_state" where
  "flyToMine mineCoords props s =
     (let targetPitch = (if is3DEnabled s then (if currentViewMode s = ''top-down'' then 45 else 60) else 0);
          s1 = s\<lparr>isAnimating := True, animationProgress := 0\<rparr>
      in case get_prop props ''status'' of
           Inl e \<Rightarrow> s1
         | Inr status \<Rightarrow>
             setTimeout FinishAnimation 3000
               (s1\<lparr>viewState :=
                    \<lparr>longitude = Num (lng mineCoords), latitude = Num (lat mineCoords),
                     zoom = (if status = Str ''illegal'' then 14.5 else 13.5),
                     pitch = targetPitch,
                     bearing = (if is3DEnabled s then - 30 else 0),
                     transitionDuration = Some 3000,
                     transitionEasing = Some FlyEasing\<rparr>\<rparr>))"

text \<open>The preset table of \<^verbatim>\<open>setViewMode\<close>, lines 96 to 115; \<open>None\<close> for a key it does not have.\<close>

record preset =
  preset_pitch :: real
  preset_bearing :: real
  preset_zoom :: real
  preset_transitionDuration :: real

definition presets :: "string \<Rightarrow> preset option" where
  "presets mode =
     (if mode = ''top-down'' then
        Some \<lparr>preset_pitch = 0, preset_bearing = 0, preset_zoom = 10.5, preset_transitionDuration = 2000\<rparr>
      else if mode = ''perspective'' then
        Some \<lparr>preset_pitch = 60, preset_bearing = - 30, preset_zoom = 11.2, preset_transitionDuration = 1800\<rparr>
      else if mode = ''cross-section'' then
        Some \<lparr>preset_pitch = 75, preset_bearing = - 45, preset_zoom = 12.5, preset_transitionDuration = 2200\<rparr>
      else None)"

text \<open>\<^verbatim>\<open>{...prev, ...presets[mode], transitionEasing: ...}\<close>, lines 117 to 125.\<close>

definition apply_preset :: "preset option \<Rightarrow> view_state \<Rightarrow> view_state" where
  "apply_preset p prev =
     (case p of
        None \<Rightarrow> prev\<lparr>transitionEasing := Some ModeEasing\<rparr>
      | Some q \<Rightarrow>
          prev\<lparr>pitch := preset_pitch q, bearing := preset_bearing q, zoom := preset_zoom q,
               transitionDuration := Some (preset_transitionDuration q),
               transitionEasing := Some ModeEasing\<rparr>)"

text \<open>Lines 85 to 131.\<close>

definition setViewMode :: "string \<Rightarrow> page_state \<Rightarrow> page_state" where
  "setViewMode mode s =
     (if \<not> is3DEnabled s then toggle3DMode s
      else setTimeout FinishAnimation 2000
             (s\<lparr>currentViewMode := mode, isAnimating := True, animationProgress := 0,
                viewState := apply_preset (presets mode) (viewState s)\<rparr>))"

text \<open>Lines 164 to 174.\<close>

definition handleMapClick :: "map_click \<Rightarrow> page_state \<Rightarrow> page_state" where
  "handleMapClick e s =
     (case click_features e of
        None \<Rightarrow> s
      | Some [] \<Rightarrow> s
      | Some (feature # rest) \<Rightarrow>
          (case get_prop feature ''properties'' of
             Inl err \<Rightarrow> s
           | Inr ps \<Rightarrow>
               flyToMine (click_lngLat e) ps
                 (s\<lparr>popupInfo := Some \<lparr>lngLat = click_lngLat e, properties = ps\<rparr>\<rparr>)))"

text \<open>
  The four camera buttons, lines 365 to 419, named by their titles: each hands
  \<^verbatim>\<open>setViewState\<close> an updater of the previous view state.
\<close>

definition rotate_left :: "view_state \<Rightarrow> view_state" where
  "rotate_left prev =
     prev\<lparr>bearing := bearing prev - 45, transitionDuration := Some 800,
          transitionEasing := Some NudgeEasing\<rparr>"

definition rotate_right :: "view_state \<Rightarrow> view_state" where
  "rotate_right prev =
     prev\<lparr>bearing := bearing prev + 45, transitionDuration := Some 800,
          transitionEasing := Some NudgeEasing\<rparr>"

definition tilt_up :: "view_state \<Rightarrow> view_state" where
  "tilt_up prev =
     prev\<lparr>pitch := min (pitch prev + 15) 85, transitionDuration := Some 600,
          transitionEasing := Some NudgeEasing\<rparr>"

definition tilt_down :: "view_state \<Rightarrow> view_state" where
  "tilt_down prev =
     prev\<lparr>pitch := max (pitch prev - 15) 0, transitionDuration := Some 600,
          transitionEasing := Some NudgeEasing\<rparr>"

datatype nudge = RotateLeft | RotateRight | TiltUp | TiltDown

fun nudge_view :: "nudge \<Rightarrow> view_state \<Rightarrow> view_state" where
  "nudge_view RotateLeft = rotate_left"
| "nudge_view RotateRight = rotate_right"
| "nudge_view TiltUp = tilt_up"
| "nudge_view TiltDown = tilt_down"

section \<open>Observations and sample inputs\<close>

text \<open>The sources a render registers with the map: none when it renders \<^verbatim>\<open>null\<close> or throws.\<close>

definition sources_of :: "exn + element \<Rightarrow> source list" where
  "sources_of r = (case r of Inr (Fragment ss) \<Rightarrow> ss | _ \<Rightarrow> [])"

definition layer_ids :: "exn + element \<Rightarrow> string list" where
  "layer_ids r = concat (map (\<lambda>s. map layer_id (source_layers s)) (sources_of r))"

text \<open>
  Stated from the specification's words, to be compared with the curve of the source:
  a transition that eases in and out is slow at both ends, so its progress stays behind
  uniform progress during the first half of the time and ahead of it during the second.
\<close>

definition spec_ease_in_out :: "(real \<Rightarrow> real) \<Rightarrow> bool" where
  "spec_ease_in_out f \<longleftrightarrow>
     (\<forall>t. 0 \<le> t \<and> t \<le> 1 / 2 \<longrightarrow> f t \<le> t) \<and> (\<forall>t. 1 / 2 \<le> t \<and> t \<le> 1 \<longrightarrow> t \<le> f t)"

text \<open>
  A response body of the backend: two illegal pits, the first with the ring that starts
  at \<open>[86.5, 23.8]\<close>, one legal area, and one operation record.
\<close>

definition sample_pit_1 :: jsval where
  "sample_pit_1 =
     Obj [(''type'', Str ''Feature''),
          (''geometry'', Obj [(''type'', Str ''Polygon''),
             (''coordinates'', Arr [Arr [Arr [Num 86.5, Num 23.8], Arr [Num 86.6, Num 23.8],
                                         Arr [Num 86.6, Num 23.9], Arr [Num 86.5, Num 23.8]]])]),
          (''properties'', Obj [(''area'', Num 3), (''status'', Str ''unknown'')])]"

definition sample_pit_2 :: jsval where
  "sample_pit_2 =
     Obj [(''type'', Str ''Feature''),
          (''geometry'', Obj [(''type'', Str ''Polygon''),
             (''coordinates'', Arr [Arr [Arr [Num 86.7, Num 23.7], Arr [Num 86.8, Num 23.7],
                                         Arr [Num 86.8, Num 23.6], Arr [Num 86.7, Num 23.7]]])])]"

definition sample_area :: jsval where
  "sample_area =
     Obj [(''type'', Str ''Feature''),
          (''geometry'', Obj [(''type'', Str ''Polygon''),
             (''coordinates'', Arr [Arr [Arr [Num 86.4, Num 23.7], Arr [Num 86.5, Num 23.7],
                                         Arr [Num 86.5, Num 23.6], Arr [Num 86.4, Num 23.7]]])]),
          (''properties'', Obj [(''license'', Str ''ML-17'')])]"

definition sample_illegal :: jsval where
  "sample_illegal = Obj [(''type'', Str ''FeatureCollection''), (''features'', Arr [sample_pit_1, sample_pit_2])]"

definition sample_legal :: jsval where
  "sample_legal = Obj [(''type'', Str ''FeatureCollection''), (''features'', Arr [sample_area])]"

definition sample_operations :: "jsval list" where
  "sample_operations = [Obj [(''avg_depth_m'', Num 12.5), (''volume_m3'', Num 300)]]"

definition sample_result :: jsval where
  "sample_result =
     Obj [(''geospatial_data'', Obj [(''legal_polygons'', sample_legal), (''illegal_polygons'', sample_illegal)]),
          (''illegal_operations'', Arr sample_operations)]"

text \<open>A body whose two collections have an empty \<^verbatim>\<open>features\<close> array.\<close>

definition empty_collection :: jsval where
  "empty_collection = Obj [(''type'', Str ''FeatureCollection''), (''features'', Arr [])]"

definition empty_result :: jsval where
  "empty_result =
     Obj [(''geospatial_data'', Obj [(''legal_polygons'', empty_collection), (''illegal_polygons'', empty_collection)]),
          (''illegal_operations'', Arr [])]"

text \<open>A body with a legal collection only.\<close>

definition legal_only_result :: jsval where
  "legal_only_result =
     Obj [(''geospatial_data'', Obj [(''legal_polygons'', sample_legal)]),
          (''illegal_operations'', Arr [])]"

section \<open>Properties of the annotator\<close>

lemma map_of_set_prop: "map_of (set_prop k v kvs) = (map_of kvs)(k \<mapsto> v)"
  by (simp add: set_prop_def update_conv')

lemma get_prop_total: "v \<noteq> Undefined \<Longrightarrow> v \<noteq> Null \<Longrightarrow> \<exists>x. get_prop v p = Inr x"
  by (cases v) simp_all

lemma annotate_result:
  assumes f: "feature \<noteq> Undefined" "feature \<noteq> Null"
      and d: "get_prop data ''illegal_operations'' = Inr v"
      and o: "or_else v (Arr []) = Arr ops"
      and r: "\<forall>x\<in>set ops. \<exists>kvs. x = Obj kvs"
  shows "\<exists>props depth volume.
           get_prop feature ''properties'' = Inr props \<and>
           Inr depth = (if isIllegal \<and> i < length ops then get_prop (ops ! i) ''avg_depth_m'' else Inr (Num 50)) \<and>
           Inr volume = (if isIllegal \<and> i < length ops then get_prop (ops ! i) ''volume_m3'' else Inr (Str ''N/A'')) \<and>
           annotate data isIllegal feature i =
             Inr (Obj (set_prop ''properties''
                (Obj (set_prop ''name''
                        (Str ((if isIllegal then ''Illegal Pit #'' else ''Legal Area #'') @ decimal (i + 1)))
                     (set_prop ''volume'' volume
                     (set_prop ''depth'' depth
                     (set_prop ''status'' (Str (if isIllegal then ''illegal'' else ''legal''))
                     (own_props props))))))
                (own_props feature)))"
proof -
  obtain props where p: "get_prop feature ''properties'' = Inr props"
    using get_prop_total [OF f] by blast
  show ?thesis
  proof (cases "isIllegal \<and> i < length ops")
    case True
    then obtain kvs where k: "ops ! i = Obj kvs"
      using r nth_mem by blast
    with True p d o show ?thesis
      by (simp add: annotate_def)
  next
    case False
    with p d o show ?thesis
      by (auto simp add: annotate_def)
  qed
qed


lemma map_indexed_Inr:
  "(\<forall>j<length xs. \<exists>y. f (xs ! j) (i + j) = Inr y) \<Longrightarrow>
   \<exists>ys. map_indexed f i xs = Inr ys \<and> length ys = length xs \<and>
        (\<forall>j<length xs. f (xs ! j) (i + j) = Inr (ys ! j))"
proof (induction xs arbitrary: i)
  case Nil
  then show ?case by simp
next
  case (Cons x xs)
  from Cons.prems have "\<exists>y. f ((x # xs) ! 0) (i + 0) = Inr y" by blast
  then obtain y where y: "f x i = Inr y" by auto
  have "\<forall>j<length xs. \<exists>y. f (xs ! j) (Suc i + j) = Inr y"
  proof (intro allI impI)
    fix j assume "j < length xs"
    then have "Suc j < length (x # xs)" by simp
    with Cons.prems have "\<exists>y. f ((x # xs) ! Suc j) (i + Suc j) = Inr y" by blast
    then show "\<exists>y. f (xs ! j) (Suc i + j) = Inr y" by simp
  qed
  from Cons.IH [OF this] obtain ys where
    ys: "map_indexed f (Suc i) xs = Inr ys" "length ys = length xs"
        "\<forall>j<length xs. f (xs ! j) (Suc i + j) = Inr (ys ! j)" by blast
  have "\<forall>j<length (x # xs). f ((x # xs) ! j) (i + j) = Inr ((y # ys) ! j)"
  proof (intro allI impI)
    fix j assume j: "j < length (x # xs)"
    show "f ((x # xs) ! j) (i + j) = Inr ((y # ys) ! j)"
    proof (cases j)
      case 0
      with y show ?thesis by simp
    next
      case (Suc k)
      with j ys(3) show ?thesis by simp
    qed
  qed
  with y ys show ?case by simp
qed

lemma get_prop_Arr_truthy: "get_prop fc ''features'' = Inr (Arr fs) \<Longrightarrow> truthy fc"
  by (cases fc) simp_all

lemma addDataToFeatures_result:
  assumes fs: "get_prop fc ''features'' = Inr (Arr fs)"
      and nn: "\<forall>x\<in>set fs. x \<noteq> Undefined \<and> x \<noteq> Null"
      and d: "get_prop data ''illegal_operations'' = Inr v"
      and o: "or_else v (Arr []) = Arr ops"
      and r: "\<forall>x\<in>set ops. \<exists>kvs. x = Obj kvs"
  shows "\<exists>fs'. addDataToFeatures data fc isIllegal =
                 Inr (Obj (set_prop ''features'' (Arr fs') (own_props fc))) \<and>
               length fs' = length fs \<and>
               (\<forall>i<length fs. annotate data isIllegal (fs ! i) i = Inr (fs' ! i))"
proof -
  have "\<forall>j<length fs. \<exists>y. annotate data isIllegal (fs ! j) (0 + j) = Inr y"
  proof (intro allI impI)
    fix j assume "j < length fs"
    then have "fs ! j \<noteq> Undefined" "fs ! j \<noteq> Null" using nn by auto
    from annotate_result [OF this d o r]
    show "\<exists>y. annotate data isIllegal (fs ! j) (0 + j) = Inr y" by auto
  qed
  from map_indexed_Inr [OF this] obtain ys where
    ys: "map_indexed (annotate data isIllegal) 0 fs = Inr ys" "length ys = length fs"
        "\<forall>j<length fs. annotate data isIllegal (fs ! j) (0 + j) = Inr (ys ! j)" by blast
  have "addDataToFeatures data fc isIllegal =
          Inr (Obj (set_prop ''features'' (Arr ys) (own_props fc)))"
    using fs ys(1) get_prop_Arr_truthy [OF fs] by (simp add: addDataToFeatures_def)
  with ys show ?thesis by auto
qed

text \<open>
  Claim C1. Let the collection hold the features \<open>fs\<close> (none of them \<^verbatim>\<open>null\<close>) and let
  \<open>operations\<close> be the operation records of the data (\<^verbatim>\<open>data.illegal_operations || []\<close>).
  Then the annotator returns the collection with as many features, and the properties of the
  \<open>i\<close>-th one hold: \<open>status\<close>, the fixed tag of the collection; \<open>depth\<close> and \<open>volume\<close>,
  the \<open>avg_depth_m\<close> and \<open>volume_m3\<close> of operation \<open>i\<close> when the collection is the
  illegal one and there is an operation at index \<open>i\<close>, else 50 and \<open>N/A\<close> (so always for
  a legal feature); \<open>name\<close>, \<open>Illegal Pit #\<close> or \<open>Legal Area #\<close> followed by \<open>i + 1\<close>.
\<close>

theorem C1_annotation:
  assumes fs: "get_prop featureCollection ''features'' = Inr (Arr fs)"
      and nn: "\<forall>x\<in>set fs. x \<noteq> Undefined \<and> x \<noteq> Null"
      and d: "get_prop data ''illegal_operations'' = Inr v"
      and o: "or_else v (Arr []) = Arr operations"
      and r: "\<forall>x\<in>set operations. \<exists>kvs. x = Obj kvs"
  shows "\<exists>fs'. addDataToFeatures data featureCollection isIllegal =
                 Inr (Obj (set_prop ''features'' (Arr fs') (own_props featureCollection))) \<and>
               length fs' = length fs \<and>
               (\<forall>i<length fs. \<exists>ps.
                  get_prop (fs' ! i) ''properties'' = Inr ps \<and>
                  get_prop ps ''status'' = Inr (Str (if isIllegal then ''illegal'' else ''legal'')) \<and>
                  get_prop ps ''depth'' =
                    (if isIllegal \<and> i < length operations
                     then get_prop (operations ! i) ''avg_depth_m'' else Inr (Num 50)) \<and>
                  get_prop ps ''volume'' =
                    (if isIllegal \<and> i < length operations
                     then get_prop (operations ! i) ''volume_m3'' else Inr (Str ''N/A'')) \<and>
                  get_prop ps ''name'' =
                    Inr (Str ((if isIllegal then ''Illegal Pit #'' else ''Legal Area #'') @ decimal (i + 1))))"
proof -
  from addDataToFeatures_result [OF fs nn d o r, of isIllegal] obtain fs' where
    res: "addDataToFeatures data featureCollection isIllegal =
            Inr (Obj (set_prop ''features'' (Arr fs') (own_props featureCollection)))"
    and len: "length fs' = length fs"
    and ann: "\<forall>i<length fs. annotate data isIllegal (fs ! i) i = Inr (fs' ! i)" by blast
  have "\<forall>i<length fs. \<exists>ps.
          get_prop (fs' ! i) ''properties'' = Inr ps \<and>
          get_prop ps ''status'' = Inr (Str (if isIllegal then ''illegal'' else ''legal'')) \<and>
          get_prop ps ''depth'' =
            (if isIllegal \<and> i < length operations
             then get_prop (operations ! i) ''avg_depth_m'' else Inr (Num 50)) \<and>
          get_prop ps ''volume'' =
            (if isIllegal \<and> i < length operations
             then get_prop (operations ! i) ''volume_m3'' else Inr (Str ''N/A'')) \<and>
          get_prop ps ''name'' =
            Inr (Str ((if isIllegal then ''Illegal Pit #'' else ''Legal Area #'') @ decimal (i + 1)))"
  proof (intro allI impI)
    fix i assume i: "i < length fs"
    then have "fs ! i \<noteq> Undefined" "fs ! i \<noteq> Null" using nn by auto
    from annotate_result [OF this d o r, of isIllegal i] obtain props depth volume where
      dep: "Inr depth = (if isIllegal \<and> i < length operations
                         then get_prop (operations ! i) ''avg_depth_m'' else Inr (Num 50))"
      and vol: "Inr volume = (if isIllegal \<and> i < length operations
                         then get_prop (operations ! i) ''volume_m3'' else Inr (Str ''N/A''))"
      and a: "annotate data isIllegal (fs ! i) i =
                Inr (Obj (set_prop ''properties''
                  (Obj (set_prop ''name''
                          (Str ((if isIllegal then ''Illegal Pit #'' else ''Legal Area #'') @ decimal (i + 1)))
                       (set_prop ''volume'' volume
                       (set_prop ''depth'' depth
                       (set_prop ''status'' (Str (if isIllegal then ''illegal'' else ''legal''))
                       (own_props props))))))
                  (own_props (fs ! i))))" by blast
    from ann i a have f': "fs' ! i = Obj (set_prop ''properties''
                  (Obj (set_prop ''name''
                          (Str ((if isIllegal then ''Illegal Pit #'' else ''Legal Area #'') @ decimal (i + 1)))
                       (set_prop ''volume'' volume
                       (set_prop ''depth'' depth
                       (set_prop ''status'' (Str (if isIllegal then ''illegal'' else ''legal''))
                       (own_props props))))))
                  (own_props (fs ! i)))" by simp
    show "\<exists>ps.
          get_prop (fs' ! i) ''properties'' = Inr ps \<and>
          get_prop ps ''status'' = Inr (Str (if isIllegal then ''illegal'' else ''legal'')) \<and>
          get_prop ps ''depth'' =
            (if isIllegal \<and> i < length operations
             then get_prop (operations ! i) ''avg_depth_m'' else Inr (Num 50)) \<and>
          get_prop ps ''volume'' =
            (if isIllegal \<and> i < length operations
             then get_prop (operations ! i) ''volume_m3'' else Inr (Str ''N/A'')) \<and>
          get_prop ps ''name'' =
            Inr (Str ((if isIllegal then ''Illegal Pit #'' else ''Legal Area #'') @ decimal (i + 1)))"
      unfolding f' using dep [symmetric] vol [symmetric] by (simp add: map_of_set_prop)
  qed
  with res len show ?thesis by blast
qed


lemma decimal_small:
  "decimal (Suc 0) = ''1''" "decimal 1 = ''1''" "decimal 2 = ''2''" "decimal (Suc (Suc 0)) = ''2''"
  by (simp_all add: decimal.simps digit_def numeral_2_eq_2)

lemma decimal_examples: "decimal 0 = ''0''" "decimal 10 = ''10''" "decimal 205 = ''205''"
  by (simp_all add: decimal.simps digit_def)

text \<open>
  Witness of C1: the sample body has two illegal pits and one operation, so the first pit
  takes the operation's depth and volume and the second one the defaults.
\<close>

theorem C1_annotation_witness:
  "\<exists>fs'. addDataToFeatures sample_result sample_illegal True =
            Inr (Obj (set_prop ''features'' (Arr fs') (own_props sample_illegal))) \<and>
          length fs' = 2 \<and>
          (\<exists>ps. get_prop (fs' ! 0) ''properties'' = Inr ps \<and>
                get_prop ps ''status'' = Inr (Str ''illegal'') \<and>
                get_prop ps ''depth'' = Inr (Num 12.5) \<and>
                get_prop ps ''volume'' = Inr (Num 300) \<and>
                get_prop ps ''name'' = Inr (Str ''Illegal Pit #1'')) \<and>
          (\<exists>ps. get_prop (fs' ! 1) ''properties'' = Inr ps \<and>
                get_prop ps ''status'' = Inr (Str ''illegal'') \<and>
                get_prop ps ''depth'' = Inr (Num 50) \<and>
                get_prop ps ''volume'' = Inr (Str ''N/A'') \<and>
                get_prop ps ''name'' = Inr (Str ''Illegal Pit #2''))"
proof -
  have h1: "get_prop sample_illegal ''features'' = Inr (Arr [sample_pit_1, sample_pit_2])"
    by (simp add: sample_illegal_def)
  have h2: "\<forall>x\<in>set [sample_pit_1, sample_pit_2]. x \<noteq> Undefined \<and> x \<noteq> Null"
    by (simp add: sample_pit_1_def sample_pit_2_def)
  have h3: "get_prop sample_result ''illegal_operations'' = Inr (Arr sample_operations)"
    by (simp add: sample_result_def)
  have h4: "or_else (Arr sample_operations) (Arr []) = Arr sample_operations"
    by (simp add: or_else_def)
  have h5: "\<forall>x\<in>set sample_operations. \<exists>kvs. x = Obj kvs"
    by (simp add: sample_operations_def)
  from C1_annotation [OF h1 h2 h3 h4 h5, of True] obtain fs' where
    r: "addDataToFeatures sample_result sample_illegal True =
            Inr (Obj (set_prop ''features'' (Arr fs') (own_props sample_illegal)))"
    and l: "length fs' = length [sample_pit_1, sample_pit_2]"
    and a: "\<forall>i<length [sample_pit_1, sample_pit_2]. \<exists>ps.
                  get_prop (fs' ! i) ''properties'' = Inr ps \<and>
                  get_prop ps ''status'' = Inr (Str (if True then ''illegal'' else ''legal'')) \<and>
                  get_prop ps ''depth'' =
                    (if True \<and> i < length sample_operations
                     then get_prop (sample_operations ! i) ''avg_depth_m'' else Inr (Num 50)) \<and>
                  get_prop ps ''volume'' =
                    (if True \<and> i < length sample_operations
                     then get_prop (sample_operations ! i) ''volume_m3'' else Inr (Str ''N/A'')) \<and>
                  get_prop ps ''name'' =
                    Inr (Str ((if True then ''Illegal Pit #'' else ''Legal Area #'') @ decimal (i + 1)))"
    by blast
  have "(0::nat) < length [sample_pit_1, sample_pit_2]" by simp
  with a have "\<exists>ps.
                  get_prop (fs' ! 0) ''properties'' = Inr ps \<and>
                  get_prop ps ''status'' = Inr (Str (if True then ''illegal'' else ''legal'')) \<and>
                  get_prop ps ''depth'' =
                    (if True \<and> 0 < length sample_operations
                     then get_prop (sample_operations ! 0) ''avg_depth_m'' else Inr (Num 50)) \<and>
                  get_prop ps ''volume'' =
                    (if True \<and> 0 < length sample_operations
                     then get_prop (sample_operations ! 0) ''volume_m3'' else Inr (Str ''N/A'')) \<and>
                  get_prop ps ''name'' =
                    Inr (Str ((if True then ''Illegal Pit #'' else ''Legal Area #'') @ decimal (0 + 1)))"
    by blast
  then have a0: "\<exists>ps. get_prop (fs' ! 0) ''properties'' = Inr ps \<and>
                get_prop ps ''status'' = Inr (Str ''illegal'') \<and>
                get_prop ps ''depth'' = Inr (Num 12.5) \<and>
                get_prop ps ''volume'' = Inr (Num 300) \<and>
                get_prop ps ''name'' = Inr (Str ''Illegal Pit #1'')"
    by (simp add: sample_operations_def decimal_small)
  have "(1::nat) < length [sample_pit_1, sample_pit_2]" by simp
  with a have "\<exists>ps.
                  get_prop (fs' ! 1) ''properties'' = Inr ps \<and>
                  get_prop ps ''status'' = Inr (Str (if True then ''illegal'' else ''legal'')) \<and>
                  get_prop ps ''depth'' =
                    (if True \<and> 1 < length sample_operations
                     then get_prop (sample_operations ! 1) ''avg_depth_m'' else Inr (Num 50)) \<and>
                  get_prop ps ''volume'' =
                    (if True \<and> 1 < length sample_operations
                     then get_prop (sample_operations ! 1) ''volume_m3'' else Inr (Str ''N/A'')) \<and>
                  get_prop ps ''name'' =
                    Inr (Str ((if True then ''Illegal Pit #'' else ''Legal Area #'') @ decimal (1 + 1)))"
    by blast
  then have a1: "\<exists>ps. get_prop (fs' ! 1) ''properties'' = Inr ps \<and>
                get_prop ps ''status'' = Inr (Str ''illegal'') \<and>
                get_prop ps ''depth'' = Inr (Num 50) \<and>
                get_prop ps ''volume'' = Inr (Str ''N/A'') \<and>
                get_prop ps ''name'' = Inr (Str ''Illegal Pit #2'')"
    by (simp add: sample_operations_def decimal_small)
  from r l a0 a1 show ?thesis by auto
qed

text \<open>
  Claim C10. Under the hypotheses of C1, with features that are objects, annotation keeps
  what it does not overwrite: every member of the collection but \<open>features\<close>, every member
  of a feature but \<open>properties\<close> (its \<open>geometry\<close> in particular), and every property of
  a feature whose key is none of \<open>status\<close>, \<open>depth\<close>, \<open>volume\<close>, \<open>name\<close>. The result is
  a new object built from the own properties of the input (the spread); the input is a
  value of the model and is not changed, as the source assigns to no part of it.
\<close>

theorem C10_annotation_frame:
  assumes fs: "get_prop featureCollection ''features'' = Inr (Arr fs)"
      and ob: "\<forall>x\<in>set fs. \<exists>kvs. x = Obj kvs"
      and d: "get_prop data ''illegal_operations'' = Inr v"
      and o: "or_else v (Arr []) = Arr operations"
      and r: "\<forall>x\<in>set operations. \<exists>kvs. x = Obj kvs"
  shows "\<exists>fs'. addDataToFeatures data featureCollection isIllegal = Inr (Obj (set_prop ''features'' (Arr fs') (own_props featureCollection))) \<and>
               length fs' = length fs \<and>
               (\<forall>k. k \<noteq> ''features'' \<longrightarrow>
                  own (Obj (set_prop ''features'' (Arr fs') (own_props featureCollection))) k = own featureCollection k) \<and>
               (\<forall>i<length fs.
                  get_prop (fs' ! i) ''geometry'' = get_prop (fs ! i) ''geometry'' \<and>
                  (\<forall>k. k \<noteq> ''properties'' \<longrightarrow> own (fs' ! i) k = own (fs ! i) k) \<and>
                  (\<exists>ps ps'. get_prop (fs ! i) ''properties'' = Inr ps \<and>
                            get_prop (fs' ! i) ''properties'' = Inr ps' \<and>
                            (\<forall>k. k \<notin> {''status'', ''depth'', ''volume'', ''name''} \<longrightarrow> own ps' k = own ps k)))"
proof -
  have nn: "\<forall>x\<in>set fs. x \<noteq> Undefined \<and> x \<noteq> Null" using ob by auto
  from addDataToFeatures_result [OF fs nn d o r, of isIllegal] obtain fs' where
    res: "addDataToFeatures data featureCollection isIllegal =
            Inr (Obj (set_prop ''features'' (Arr fs') (own_props featureCollection)))"
    and len: "length fs' = length fs"
    and ann: "\<forall>i<length fs. annotate data isIllegal (fs ! i) i = Inr (fs' ! i)" by blast
  have coll: "\<forall>k. k \<noteq> ''features'' \<longrightarrow>
          own (Obj (set_prop ''features'' (Arr fs') (own_props featureCollection))) k = own featureCollection k"
    by (simp add: own_def map_of_set_prop)
  have each: "\<forall>i<length fs.
          get_prop (fs' ! i) ''geometry'' = get_prop (fs ! i) ''geometry'' \<and>
          (\<forall>k. k \<noteq> ''properties'' \<longrightarrow> own (fs' ! i) k = own (fs ! i) k) \<and>
          (\<exists>ps ps'. get_prop (fs ! i) ''properties'' = Inr ps \<and>
                    get_prop (fs' ! i) ''properties'' = Inr ps' \<and>
                    (\<forall>k. k \<notin> {''status'', ''depth'', ''volume'', ''name''} \<longrightarrow> own ps' k = own ps k))"
  proof (intro allI impI)
    fix i assume i: "i < length fs"
    then obtain kvs where kvs: "fs ! i = Obj kvs" using ob nth_mem by blast
    then have "fs ! i \<noteq> Undefined" "fs ! i \<noteq> Null" by auto
    from annotate_result [OF this d o r, of isIllegal i] obtain props depth volume where
      p: "get_prop (fs ! i) ''properties'' = Inr props"
      and a: "annotate data isIllegal (fs ! i) i =
                Inr (Obj (set_prop ''properties''
                  (Obj (set_prop ''name''
                          (Str ((if isIllegal then ''Illegal Pit #'' else ''Legal Area #'') @ decimal (i + 1)))
                       (set_prop ''volume'' volume
                       (set_prop ''depth'' depth
                       (set_prop ''status'' (Str (if isIllegal then ''illegal'' else ''legal''))
                       (own_props props))))))
                  (own_props (fs ! i))))" by blast
    from ann i a have f': "fs' ! i = Obj (set_prop ''properties''
                  (Obj (set_prop ''name''
                          (Str ((if isIllegal then ''Illegal Pit #'' else ''Legal Area #'') @ decimal (i + 1)))
                       (set_prop ''volume'' volume
                       (set_prop ''depth'' depth
                       (set_prop ''status'' (Str (if isIllegal then ''illegal'' else ''legal''))
                       (own_props props))))))
                  (own_props (fs ! i)))" by simp
    have g: "get_prop (fs' ! i) ''geometry'' = get_prop (fs ! i) ''geometry''"
      unfolding f' by (simp add: kvs map_of_set_prop)
    have k: "\<forall>k. k \<noteq> ''properties'' \<longrightarrow> own (fs' ! i) k = own (fs ! i) k"
      unfolding f' by (simp add: own_def map_of_set_prop)
    have q: "get_prop (fs' ! i) ''properties'' =
               Inr (Obj (set_prop ''name''
                          (Str ((if isIllegal then ''Illegal Pit #'' else ''Legal Area #'') @ decimal (i + 1)))
                       (set_prop ''volume'' volume
                       (set_prop ''depth'' depth
                       (set_prop ''status'' (Str (if isIllegal then ''illegal'' else ''legal''))
                       (own_props props))))))"
      unfolding f' by (simp add: map_of_set_prop)
    have "\<forall>k. k \<notin> {''status'', ''depth'', ''volume'', ''name''} \<longrightarrow>
             own (Obj (set_prop ''name''
                          (Str ((if isIllegal then ''Illegal Pit #'' else ''Legal Area #'') @ decimal (i + 1)))
                       (set_prop ''volume'' volume
                       (set_prop ''depth'' depth
                       (set_prop ''status'' (Str (if isIllegal then ''illegal'' else ''legal''))
                       (own_props props)))))) k = own props k"
      by (simp add: own_def map_of_set_prop)
    with p q g k show
         "get_prop (fs' ! i) ''geometry'' = get_prop (fs ! i) ''geometry'' \<and>
          (\<forall>k. k \<noteq> ''properties'' \<longrightarrow> own (fs' ! i) k = own (fs ! i) k) \<and>
          (\<exists>ps ps'. get_prop (fs ! i) ''properties'' = Inr ps \<and>
                    get_prop (fs' ! i) ''properties'' = Inr ps' \<and>
                    (\<forall>k. k \<notin> {''status'', ''depth'', ''volume'', ''name''} \<longrightarrow> own ps' k = own ps k))"
      by blast
  qed
  from res len coll each show ?thesis by blast
qed


text \<open>
  Witness of C10 on the sample body: the collection keeps its \<open>type\<close>, the first pit its
  \<open>type\<close> and \<open>geometry\<close>, and its properties keep \<open>area\<close>.
\<close>

theorem C10_annotation_frame_witness:
  "\<exists>fs'. addDataToFeatures sample_result sample_illegal True =
            Inr (Obj (set_prop ''features'' (Arr fs') (own_props sample_illegal))) \<and>
          length fs' = 2 \<and>
          own (Obj (set_prop ''features'' (Arr fs') (own_props sample_illegal))) ''type'' = Some (Str ''FeatureCollection'') \<and>
          get_prop (fs' ! 0) ''geometry'' = get_prop sample_pit_1 ''geometry'' \<and>
          own (fs' ! 0) ''type'' = Some (Str ''Feature'') \<and>
          (\<exists>ps'. get_prop (fs' ! 0) ''properties'' = Inr ps' \<and> own ps' ''area'' = Some (Num 3))"
proof -
  have h1: "get_prop sample_illegal ''features'' = Inr (Arr [sample_pit_1, sample_pit_2])"
    by (simp add: sample_illegal_def)
  have h2: "\<forall>x\<in>set [sample_pit_1, sample_pit_2]. \<exists>kvs. x = Obj kvs"
    by (simp add: sample_pit_1_def sample_pit_2_def)
  have h3: "get_prop sample_result ''illegal_operations'' = Inr (Arr sample_operations)"
    by (simp add: sample_result_def)
  have h4: "or_else (Arr sample_operations) (Arr []) = Arr sample_operations"
    by (simp add: or_else_def)
  have h5: "\<forall>x\<in>set sample_operations. \<exists>kvs. x = Obj kvs"
    by (simp add: sample_operations_def)
  from C10_annotation_frame [OF h1 h2 h3 h4 h5, of True] obtain fs' where
    r: "addDataToFeatures sample_result sample_illegal True =
            Inr (Obj (set_prop ''features'' (Arr fs') (own_props sample_illegal)))"
    and l: "length fs' = length [sample_pit_1, sample_pit_2]"
    and c: "\<forall>k. k \<noteq> ''features'' \<longrightarrow>
              own (Obj (set_prop ''features'' (Arr fs') (own_props sample_illegal))) k = own sample_illegal k"
    and a: "\<forall>i<length [sample_pit_1, sample_pit_2].
              get_prop (fs' ! i) ''geometry'' = get_prop ([sample_pit_1, sample_pit_2] ! i) ''geometry'' \<and>
              (\<forall>k. k \<noteq> ''properties'' \<longrightarrow> own (fs' ! i) k = own ([sample_pit_1, sample_pit_2] ! i) k) \<and>
              (\<exists>ps ps'. get_prop ([sample_pit_1, sample_pit_2] ! i) ''properties'' = Inr ps \<and>
                        get_prop (fs' ! i) ''properties'' = Inr ps' \<and>
                        (\<forall>k. k \<notin> {''status'', ''depth'', ''volume'', ''name''} \<longrightarrow> own ps' k = own ps k))"
    by blast
  have t: "own (Obj (set_prop ''features'' (Arr fs') (own_props sample_illegal))) ''type'' = Some (Str ''FeatureCollection'')"
    using c by (simp add: sample_illegal_def own_def)
  have "(0::nat) < length [sample_pit_1, sample_pit_2]" by simp
  with a have a0:
       "get_prop (fs' ! 0) ''geometry'' = get_prop ([sample_pit_1, sample_pit_2] ! 0) ''geometry'' \<and>
        (\<forall>k. k \<noteq> ''properties'' \<longrightarrow> own (fs' ! 0) k = own ([sample_pit_1, sample_pit_2] ! 0) k) \<and>
        (\<exists>ps ps'. get_prop ([sample_pit_1, sample_pit_2] ! 0) ''properties'' = Inr ps \<and>
                  get_prop (fs' ! 0) ''properties'' = Inr ps' \<and>
                  (\<forall>k. k \<notin> {''status'', ''depth'', ''volume'', ''name''} \<longrightarrow> own ps' k = own ps k))"
    by blast
  from a0 have g: "get_prop (fs' ! 0) ''geometry'' = get_prop sample_pit_1 ''geometry''" by simp
  from a0 have "own (fs' ! 0) ''type'' = own sample_pit_1 ''type''" by simp
  then have ty: "own (fs' ! 0) ''type'' = Some (Str ''Feature'')"
    by (simp add: sample_pit_1_def own_def)
  from a0 obtain ps ps' where
    p: "get_prop sample_pit_1 ''properties'' = Inr ps"
    and p': "get_prop (fs' ! 0) ''properties'' = Inr ps'"
    and fr: "\<forall>k. k \<notin> {''status'', ''depth'', ''volume'', ''name''} \<longrightarrow> own ps' k = own ps k"
    by auto
  from p have "ps = Obj [(''area'', Num 3), (''status'', Str ''unknown'')]"
    by (simp add: sample_pit_1_def)
  with fr have "own ps' ''area'' = Some (Num 3)" by (simp add: own_def)
  with p' have e: "\<exists>ps'. get_prop (fs' ! 0) ''properties'' = Inr ps' \<and> own ps' ''area'' = Some (Num 3)"
    by blast
  from r l t g ty e show ?thesis by auto
qed

text \<open>
  Claim C2, as amended. A collection that is absent (\<^verbatim>\<open>undefined\<close> or \<^verbatim>\<open>null\<close>) or
  whose \<open>features\<close> member is absent or \<^verbatim>\<open>null\<close> is annotated to \<^verbatim>\<open>null\<close>, and the
  render registers neither its source nor its two layers.
\<close>

theorem C2_absent_collection:
  assumes gd: "get_prop data ''geospatial_data'' = Inr geospatial_data"
      and c: "get_prop geospatial_data (if isIllegal then ''illegal_polygons'' else ''legal_polygons'') = Inr collection"
      and absent: "collection = Undefined \<or> collection = Null \<or>
                   get_prop collection ''features'' = Inr Undefined \<or>
                   get_prop collection ''features'' = Inr Null"
  shows "addDataToFeatures data collection isIllegal = Inr Null \<and>
         (if isIllegal then ''illegal-pits'' else ''legal-pits'') \<notin>
            set (map source_id (sources_of (MiningPitVisualizer data))) \<and>
         set (if isIllegal then [''illegal-pits-3d'', ''illegal-pits-2d''] else [''legal-pits-3d'', ''legal-pits-2d'']) \<inter>
            set (layer_ids (MiningPitVisualizer data)) = {}"
proof -
  have n: "addDataToFeatures data collection isIllegal = Inr Null" for isIllegal
    using absent by (cases collection) (auto simp add: addDataToFeatures_def)
  have "(if isIllegal then ''illegal-pits'' else ''legal-pits'') \<notin>
            set (map source_id (sources_of (MiningPitVisualizer data))) \<and>
         set (if isIllegal then [''illegal-pits-3d'', ''illegal-pits-2d''] else [''legal-pits-3d'', ''legal-pits-2d'']) \<inter>
            set (layer_ids (MiningPitVisualizer data)) = {}"
  proof (cases isIllegal)
    case True
    with c have c': "get_prop geospatial_data ''illegal_polygons'' = Inr collection" by simp
    then show ?thesis using gd n [of True] True
      by (auto simp add: MiningPitVisualizer_def sources_of_def layer_ids_def legal_source_def
          split: sum.splits element.splits)
  next
    case False
    with c have c': "get_prop geospatial_data ''legal_polygons'' = Inr collection" by simp
    then show ?thesis using gd n [of False] False
      by (auto simp add: MiningPitVisualizer_def sources_of_def layer_ids_def illegal_source_def
          split: sum.splits element.splits)
  qed
  with n show ?thesis by blast
qed


text \<open>
  Witness of C2 (amended): a body without \<open>illegal_polygons\<close> registers nothing for the
  illegal pits.
\<close>

theorem C2_absent_collection_witness:
  "get_prop legal_only_result ''geospatial_data'' = Inr (Obj [(''legal_polygons'', sample_legal)]) \<and>
   get_prop (Obj [(''legal_polygons'', sample_legal)]) ''illegal_polygons'' = Inr Undefined \<and>
   addDataToFeatures legal_only_result Undefined True = Inr Null \<and>
   ''illegal-pits'' \<notin> set (map source_id (sources_of (MiningPitVisualizer legal_only_result))) \<and>
   set [''illegal-pits-3d'', ''illegal-pits-2d''] \<inter> set (layer_ids (MiningPitVisualizer legal_only_result)) = {}"
proof -
  have h1: "get_prop legal_only_result ''geospatial_data'' = Inr (Obj [(''legal_polygons'', sample_legal)])"
    by (simp add: legal_only_result_def)
  have h2: "get_prop (Obj [(''legal_polygons'', sample_legal)])
              (if True then ''illegal_polygons'' else ''legal_polygons'') = Inr Undefined"
    by simp
  have h3: "Undefined = Undefined \<or> Undefined = Null \<or>
            get_prop Undefined ''features'' = Inr Undefined \<or> get_prop Undefined ''features'' = Inr Null"
    by simp
  from C2_absent_collection [OF h1 h2 h3] h1 show ?thesis by simp
qed

text \<open>
  Counterexample to C2 as stated: an empty \<open>features\<close> array is truthy, so the guard of
  line 18 lets it pass. The annotator returns the collection, not \<^verbatim>\<open>null\<close>, and the
  render registers both sources with their layers.
\<close>

theorem C2_counterexample:
  "addDataToFeatures empty_result empty_collection True = Inr empty_collection \<and>
   empty_collection \<noteq> Null \<and>
   map source_id (sources_of (MiningPitVisualizer empty_result)) = [''illegal-pits'', ''legal-pits''] \<and>
   layer_ids (MiningPitVisualizer empty_result) =
     [''illegal-pits-3d'', ''illegal-pits-2d'', ''legal-pits-3d'', ''legal-pits-2d'']"
proof -
  have a: "addDataToFeatures d empty_collection b = Inr empty_collection" for d b
    by (simp add: addDataToFeatures_def empty_collection_def set_prop_def)
  have t: "truthy empty_collection" "empty_collection \<noteq> Null"
    by (simp_all add: empty_collection_def)
  have m: "MiningPitVisualizer empty_result =
             Inr (Fragment [illegal_source empty_collection, legal_source empty_collection])"
    by (simp add: MiningPitVisualizer_def empty_result_def a t)
  show ?thesis
    unfolding m by (simp add: a t sources_of_def layer_ids_def illegal_source_def legal_source_def)
qed

section \<open>Properties of the upload flow\<close>

lemma and_then_Inr: "and_then (Inr x) f = f x"
  by (simp add: and_then_def)

lemma allFeatures_illegal_first:
  assumes gd: "get_prop results ''geospatial_data'' = Inr gd"
      and ip: "get_prop gd ''illegal_polygons'' = Inr ip"
      and ifs: "get_prop ip ''features'' = Inr (Arr (f # fs))"
      and lp: "get_prop gd ''legal_polygons'' = Inr lp"
      and lfs: "get_prop lp ''features'' = Inr lfs"
      and ys: "spread_array (or_else lfs (Arr [])) = Inr ys"
  shows "allFeatures results = Inr (f # fs @ ys)"
  using assms by (simp add: allFeatures_def and_then_Inr or_else_def)

text \<open>
  Claim C3. Take a successful response whose body has the shape of an analysis result: a
  \<open>geospatial_data\<close> with an illegal collection of at least one feature \<open>f\<close> and a legal
  collection whose \<open>features\<close> are absent or can be spread. If \<open>c\<close> is the first
  coordinate of the first ring of \<open>f\<close>, one whole run of \<^verbatim>\<open>handleAnalysis\<close> stores the
  body and puts the camera on \<open>c\<close>: longitude \<open>c[0]\<close>, latitude \<open>c[1]\<close>, zoom 12, with a
  transition of 2000 ms. The legal features play no part: the first illegal feature is the
  first of the concatenation.
\<close>

theorem C3_recenter:
  assumes gd: "get_prop results ''geospatial_data'' = Inr gd"
      and ip: "get_prop gd ''illegal_polygons'' = Inr ip"
      and ifs: "get_prop ip ''features'' = Inr (Arr (f # fs))"
      and lp: "get_prop gd ''legal_polygons'' = Inr lp"
      and lfs: "get_prop lp ''features'' = Inr lfs"
      and ys: "spread_array (or_else lfs (Arr [])) = Inr ys"
      and c: "firstCoord f = Inr c"
      and x: "get_idx c 0 = Inr x"
      and y: "get_idx c 1 = Inr y"
  shows "viewState (handleAnalysis num_str (Some file) (Response True (Inr results)) s) =
           (viewState s)\<lparr>longitude := x, latitude := y, zoom := 12, transitionDuration := Some 2000\<rparr> \<and>
         analysisResult (handleAnalysis num_str (Some file) (Response True (Inr results)) s) = results \<and>
         error (handleAnalysis num_str (Some file) (Response True (Inr results)) s) = None \<and>
         render_error (handleAnalysis num_str (Some file) (Response True (Inr results)) s) = render_error s"
proof -
  have a: "allFeatures results = Inr (f # fs @ ys)"
    by (rule allFeatures_illegal_first [OF gd ip ifs lp lfs ys])
  have r: "recenter c v = Inr (v\<lparr>longitude := x, latitude := y, zoom := 12, transitionDuration := Some 2000\<rparr>)" for v
    using x y by (simp add: recenter_def and_then_Inr)
  show ?thesis
    by (simp add: handleAnalysis_def handleAnalysis_settle_def handleAnalysis_begin_def
        try_block_def a c r setViewState_with_def)
qed


text \<open>
  Witness of C3, the case the specification names: the first illegal ring of the sample
  body starts at \<open>[86.5, 23.8]\<close>, and the camera ends there at zoom 12.
\<close>

theorem C3_recenter_witness:
  "longitude (viewState (handleAnalysis (\<lambda>x. []) (Some ''mine.zip'') (Response True (Inr sample_result)) App_init)) = Num 86.5 \<and>
   latitude (viewState (handleAnalysis (\<lambda>x. []) (Some ''mine.zip'') (Response True (Inr sample_result)) App_init)) = Num 23.8 \<and>
   zoom (viewState (handleAnalysis (\<lambda>x. []) (Some ''mine.zip'') (Response True (Inr sample_result)) App_init)) = 12 \<and>
   analysisResult (handleAnalysis (\<lambda>x. []) (Some ''mine.zip'') (Response True (Inr sample_result)) App_init) = sample_result \<and>
   error (handleAnalysis (\<lambda>x. []) (Some ''mine.zip'') (Response True (Inr sample_result)) App_init) = None"
proof -
  have h1: "get_prop sample_result ''geospatial_data'' =
              Inr (Obj [(''legal_polygons'', sample_legal), (''illegal_polygons'', sample_illegal)])"
    by (simp add: sample_result_def)
  have h2: "get_prop (Obj [(''legal_polygons'', sample_legal), (''illegal_polygons'', sample_illegal)])
              ''illegal_polygons'' = Inr sample_illegal"
    by simp
  have h3: "get_prop sample_illegal ''features'' = Inr (Arr (sample_pit_1 # [sample_pit_2]))"
    by (simp add: sample_illegal_def)
  have h4: "get_prop (Obj [(''legal_polygons'', sample_legal), (''illegal_polygons'', sample_illegal)])
              ''legal_polygons'' = Inr sample_legal"
    by simp
  have h5: "get_prop sample_legal ''features'' = Inr (Arr [sample_area])"
    by (simp add: sample_legal_def)
  have h6: "spread_array (or_else (Arr [sample_area]) (Arr [])) = Inr [sample_area]"
    by (simp add: or_else_def)
  have h7: "firstCoord sample_pit_1 = Inr (Arr [Num 86.5, Num 23.8])"
    by (simp add: firstCoord_def sample_pit_1_def and_then_def)
  have h8: "get_idx (Arr [Num 86.5, Num 23.8]) 0 = Inr (Num 86.5)"
    by simp
  have h9: "get_idx (Arr [Num 86.5, Num 23.8]) 1 = Inr (Num 23.8)"
    by simp
  from C3_recenter [OF h1 h2 h3 h4 h5 h6 h7 h8 h9, of "\<lambda>x. []" "''mine.zip''" App_init]
  show ?thesis by simp
qed

text \<open>
  Claim C4, as amended. After a response that is not \<^verbatim>\<open>ok\<close> the analysis result is
  unset, the loading flag is cleared and the camera is untouched. The error state is the
  \<open>details\<close> of the parsed body when that is a non-empty string, the fixed message
  \<open>Backend analysis failed\<close> when the body parses to a value other than \<^verbatim>\<open>null\<close>
  with no truthy \<open>details\<close>, and the message of the rejection itself when
  \<^verbatim>\<open>response.json()\<close> rejects.
\<close>

theorem C4_failed_response:
  "analysisResult (handleAnalysis num_str (Some file) (Response False body) s) = Null \<and>
   \<not> isLoading (handleAnalysis num_str (Some file) (Response False body) s) \<and>
   viewState (handleAnalysis num_str (Some file) (Response False body) s) = viewState s \<and>
   (\<forall>errData d. body = Inr errData \<and> get_prop errData ''details'' = Inr (Str d) \<and> d \<noteq> [] \<longrightarrow>
      error (handleAnalysis num_str (Some file) (Response False body) s) = Some d) \<and>
   (\<forall>errData details. body = Inr errData \<and> get_prop errData ''details'' = Inr details \<and> \<not> truthy details \<longrightarrow>
      error (handleAnalysis num_str (Some file) (Response False body) s) = Some ''Backend analysis failed'') \<and>
   (\<forall>e. body = Inl e \<longrightarrow>
      error (handleAnalysis num_str (Some file) (Response False body) s) = Some (message e))"
  by (auto simp add: handleAnalysis_def handleAnalysis_settle_def handleAnalysis_begin_def
      try_block_def or_else_def split: sum.splits)

text \<open>
  Witness of C4 (amended): the body \<^verbatim>\<open>{"details":"invalid shapefile"}\<close> of the
  specification, a body without \<open>details\<close>, and a body that is not JSON.
\<close>

theorem C4_failed_response_witness:
  "error (handleAnalysis (\<lambda>x. []) (Some ''mine.zip'')
            (Response False (Inr (Obj [(''details'', Str ''invalid shapefile'')]))) App_init) = Some ''invalid shapefile'' \<and>
   analysisResult (handleAnalysis (\<lambda>x. []) (Some ''mine.zip'')
            (Response False (Inr (Obj [(''details'', Str ''invalid shapefile'')]))) App_init) = Null \<and>
   error (handleAnalysis (\<lambda>x. []) (Some ''mine.zip'') (Response False (Inr (Obj []))) App_init) =
     Some ''Backend analysis failed'' \<and>
   error (handleAnalysis (\<lambda>x. []) (Some ''mine.zip'') (Response False (Inl (SyntaxError ''Unexpected end of JSON input''))) App_init) =
     Some ''Unexpected end of JSON input''"
proof -
  have a: "get_prop (Obj [(''details'', Str ''invalid shapefile'')]) ''details'' = Inr (Str ''invalid shapefile'')"
    by simp
  have b: "get_prop (Obj []) ''details'' = Inr Undefined" "\<not> truthy Undefined"
    by simp_all
  from C4_failed_response [of "\<lambda>x. []" "''mine.zip''" "Inr (Obj [(''details'', Str ''invalid shapefile'')])" App_init] a
  have 1: "error (handleAnalysis (\<lambda>x. []) (Some ''mine.zip'')
            (Response False (Inr (Obj [(''details'', Str ''invalid shapefile'')]))) App_init) = Some ''invalid shapefile''"
    and 2: "analysisResult (handleAnalysis (\<lambda>x. []) (Some ''mine.zip'')
            (Response False (Inr (Obj [(''details'', Str ''invalid shapefile'')]))) App_init) = Null"
    by blast+
  from C4_failed_response [of "\<lambda>x. []" "''mine.zip''" "Inr (Obj [])" App_init] b
  have 3: "error (handleAnalysis (\<lambda>x. []) (Some ''mine.zip'') (Response False (Inr (Obj []))) App_init) =
     Some ''Backend analysis failed''"
    by blast
  from C4_failed_response [of "\<lambda>x. []" "''mine.zip''" "Inl (SyntaxError ''Unexpected end of JSON input'')" App_init]
  have 4: "error (handleAnalysis (\<lambda>x. []) (Some ''mine.zip'') (Response False (Inl (SyntaxError ''Unexpected end of JSON input''))) App_init) =
     Some ''Unexpected end of JSON input''"
    by simp
  from 1 2 3 4 show ?thesis by blast
qed

text \<open>
  Counterexample to C4 as stated: when the body of a failed response is not JSON, line 46
  throws before the fallback of line 47 is reached, and the error state is the parser's
  message, not the generic one.
\<close>

theorem C4_counterexample:
  "error (handleAnalysis (\<lambda>x. []) (Some ''mine.zip'')
            (Response False (Inl (SyntaxError ''Unexpected end of JSON input''))) App_init) =
     Some ''Unexpected end of JSON input'' \<and>
   ''Unexpected end of JSON input'' \<noteq> ''Backend analysis failed''"
  by (simp add: handleAnalysis_def handleAnalysis_settle_def handleAnalysis_begin_def try_block_def)

text \<open>
  Claim C7, as amended. Of everything that can happen to \<^verbatim>\<open>App\<close>, two things change
  the stored analysis result: clicking Analyze with a file selected, which clears it before
  the request is sent (line 34), and a successful response whose body parses, which stores
  the body (line 51). A click without a file, a failed or rejected request, a map click, a
  move of the map and closing the popup leave it as it is.
\<close>

theorem C7_analysisResult_frame:
  "analysisResult (app_step num_str event s) =
     (case event of
        AnalyzeClicked (Some file) \<Rightarrow> Null
      | RequestSettled (Response True (Inr results)) \<Rightarrow> results
      | _ \<Rightarrow> analysisResult s)"
proof (cases event)
  case (AnalyzeClicked selected)
  then show ?thesis by (cases selected) (simp_all add: handleAnalysis_begin_def)
next
  case (RequestSettled r)
  then show ?thesis
    by (auto simp add: handleAnalysis_settle_def try_block_def setViewState_with_def Let_def
        split: fetch_result.splits sum.splits option.splits prod.splits if_splits)
next
  case (MapClicked e)
  then show ?thesis
    by (simp add: App_handleMapClick_def split: option.splits list.splits sum.splits)
next
  case (Moved v)
  then show ?thesis by (simp add: onMove_def)
next
  case PopupClosed
  then show ?thesis by (simp add: onClose_def)
qed

text \<open>
  Witness of C7 (amended): closing the popup and a rejected request keep a stored result,
  a successful response replaces it.
\<close>

theorem C7_analysisResult_frame_witness:
  "analysisResult (app_step (\<lambda>x. []) PopupClosed (App_init\<lparr>analysisResult := sample_result\<rparr>)) = sample_result \<and>
   analysisResult (app_step (\<lambda>x. []) (RequestSettled (Rejected (TypeError ''Failed to fetch'')))
      (App_init\<lparr>analysisResult := sample_result\<rparr>)) = sample_result \<and>
   analysisResult (app_step (\<lambda>x. []) (RequestSettled (Response True (Inr empty_result)))
      (App_init\<lparr>analysisResult := sample_result\<rparr>)) = empty_result"
  using C7_analysisResult_frame [of "\<lambda>x. []" PopupClosed "App_init\<lparr>analysisResult := sample_result\<rparr>"]
        C7_analysisResult_frame [of "\<lambda>x. []" "RequestSettled (Rejected (TypeError ''Failed to fetch''))"
          "App_init\<lparr>analysisResult := sample_result\<rparr>"]
        C7_analysisResult_frame [of "\<lambda>x. []" "RequestSettled (Response True (Inr empty_result))"
          "App_init\<lparr>analysisResult := sample_result\<rparr>"]
  by simp

text \<open>
  Counterexample to C7 as stated: with a result stored, clicking Analyze clears it at once,
  before any analysis has completed.
\<close>

theorem C7_counterexample:
  "analysisResult (App_init\<lparr>analysisResult := sample_result\<rparr>) = sample_result \<and>
   sample_result \<noteq> Null \<and>
   analysisResult (app_step (\<lambda>x. []) (AnalyzeClicked (Some ''mine.zip''))
      (App_init\<lparr>analysisResult := sample_result\<rparr>)) = Null"
  by (simp add: handleAnalysis_begin_def sample_result_def)

text \<open>
  Claim C8. With a file selected, the flow sets the loading flag before the request, and
  whatever the request's outcome \<open>r\<close> (a rejected \<^verbatim>\<open>fetch\<close>, a response that is not
  \<^verbatim>\<open>ok\<close>, a success, a throw on the way), the flag is false once the flow has settled.
\<close>

theorem C8_loading_cleared:
  "isLoading (handleAnalysis_begin (Some selected) s) \<and>
   \<not> isLoading (handleAnalysis_settle num_str r s') \<and>
   \<not> isLoading (handleAnalysis num_str (Some selected) r s)"
  by (simp add: handleAnalysis_def handleAnalysis_settle_def handleAnalysis_begin_def
      split: prod.splits option.splits)

text \<open>
  Witness of C8: a success, a network failure and a 422 response.
\<close>

theorem C8_loading_cleared_witness:
  "\<not> isLoading (handleAnalysis (\<lambda>x. []) (Some ''mine.zip'') (Response True (Inr sample_result)) App_init) \<and>
   \<not> isLoading (handleAnalysis (\<lambda>x. []) (Some ''mine.zip'') (Rejected (TypeError ''Failed to fetch'')) App_init) \<and>
   \<not> isLoading (handleAnalysis (\<lambda>x. []) (Some ''mine.zip'') (Response False (Inr (Obj [(''details'', Str ''invalid shapefile'')]))) App_init)"
  using C8_loading_cleared [where selected = "''mine.zip''" and s = App_init and num_str = "\<lambda>x. []"
          and r = "Response True (Inr sample_result)"]
        C8_loading_cleared [where selected = "''mine.zip''" and s = App_init and num_str = "\<lambda>x. []"
          and r = "Rejected (TypeError ''Failed to fetch'')"]
        C8_loading_cleared [where selected = "''mine.zip''" and s = App_init and num_str = "\<lambda>x. []"
          and r = "Response False (Inr (Obj [(''details'', Str ''invalid shapefile'')]))"]
  by blast

section \<open>Properties of the view-state controller\<close>

lemma presets_values:
  assumes "presets mode = Some p"
  shows "preset_pitch p \<in> {0, 60, 75} \<and> preset_transitionDuration p \<in> {2000, 1800, 2200}"
proof -
  consider "p = \<lparr>preset_pitch = 0, preset_bearing = 0, preset_zoom = 10.5, preset_transitionDuration = 2000\<rparr>"
    | "p = \<lparr>preset_pitch = 60, preset_bearing = - 30, preset_zoom = 11.2, preset_transitionDuration = 1800\<rparr>"
    | "p = \<lparr>preset_pitch = 75, preset_bearing = - 45, preset_zoom = 12.5, preset_transitionDuration = 2200\<rparr>"
    using assms unfolding presets_def by (metis option.distinct(1) option.inject)
  then show ?thesis by cases simp_all
qed

lemma toggle3DMode_from_2D:
  assumes "\<not> is3DEnabled s"
  shows "is3DEnabled (toggle3DMode s)"
    and "currentViewMode (toggle3DMode s) = ''perspective''"
    and "viewState (toggle3DMode s) =
           (viewState s)\<lparr>pitch := 45, bearing := - 30, zoom := 11.2,
                         transitionDuration := Some 1500, transitionEasing := Some ToggleEasing\<rparr>"
  using assms by (simp_all add: toggle3DMode_def setTimeout_def Let_def)

lemma toggle3DMode_from_3D:
  assumes "is3DEnabled s"
  shows "\<not> is3DEnabled (toggle3DMode s)"
    and "currentViewMode (toggle3DMode s) = ''top-down''"
    and "viewState (toggle3DMode s) =
           (viewState s)\<lparr>pitch := 0, bearing := 0, zoom := 10.5,
                         transitionDuration := Some 1500, transitionEasing := Some ToggleEasing\<rparr>"
  using assms by (simp_all add: toggle3DMode_def setTimeout_def Let_def)

text \<open>
  Claim C5. Called in 2D mode, \<^verbatim>\<open>setViewMode(mode)\<close> is \<^verbatim>\<open>toggle3DMode()\<close>: its result
  does not depend on \<open>mode\<close>, 3D is enabled, the view mode is \<open>perspective\<close> whatever was
  asked, and the camera takes the toggle's targets (pitch 45, 1500 ms), which differ from
  the preset of every mode in pitch and in duration: no preset is applied.
\<close>

theorem C5_setViewMode_in_2D:
  assumes "\<not> is3DEnabled s"
  shows "setViewMode mode s = toggle3DMode s \<and>
         setViewMode mode s = setViewMode mode' s \<and>
         is3DEnabled (setViewMode mode s) \<and>
         currentViewMode (setViewMode mode s) = ''perspective'' \<and>
         viewState (setViewMode mode s) =
           (viewState s)\<lparr>pitch := 45, bearing := - 30, zoom := 11.2,
                         transitionDuration := Some 1500, transitionEasing := Some ToggleEasing\<rparr> \<and>
         (\<forall>p. presets mode = Some p \<longrightarrow>
            pitch (viewState (setViewMode mode s)) \<noteq> preset_pitch p \<and>
            transitionDuration (viewState (setViewMode mode s)) \<noteq> Some (preset_transitionDuration p) \<and>
            viewState (setViewMode mode s) \<noteq> apply_preset (Some p) (viewState s))"
proof -
  have t: "setViewMode m s = toggle3DMode s" for m
    using assms by (simp add: setViewMode_def)
  note f = toggle3DMode_from_2D [OF assms]
  have p: "pitch (viewState (toggle3DMode s)) \<noteq> preset_pitch p \<and>
           transitionDuration (viewState (toggle3DMode s)) \<noteq> Some (preset_transitionDuration p) \<and>
           viewState (toggle3DMode s) \<noteq> apply_preset (Some p) (viewState s)"
    if "presets mode = Some p" for p
  proof -
    from presets_values [OF that]
    have a: "preset_pitch p \<noteq> 45" and b: "preset_transitionDuration p \<noteq> 1500" by auto
    have c: "pitch (viewState (toggle3DMode s)) = 45"
      and d: "transitionDuration (viewState (toggle3DMode s)) = Some 1500"
      unfolding f(3) by simp_all
    have e: "pitch (apply_preset (Some p) (viewState s)) = preset_pitch p"
      by (simp add: apply_preset_def)
    from a c e have "viewState (toggle3DMode s) \<noteq> apply_preset (Some p) (viewState s)"
      by auto
    with a b c d show ?thesis by simp
  qed
  show ?thesis
    unfolding t using f p by blast
qed

text \<open>
  Witness of C5: \<^verbatim>\<open>setViewMode('perspective')\<close> on the page after one toggle to 2D.
\<close>

theorem C5_setViewMode_in_2D_witness:
  "\<not> is3DEnabled (run_callback ClearAnimating (toggle3DMode MapPage_init)) \<and>
   is3DEnabled (setViewMode ''perspective'' (run_callback ClearAnimating (toggle3DMode MapPage_init))) \<and>
   pitch (viewState (setViewMode ''perspective'' (run_callback ClearAnimating (toggle3DMode MapPage_init)))) = 45 \<and>
   transitionDuration (viewState (setViewMode ''perspective'' (run_callback ClearAnimating (toggle3DMode MapPage_init)))) = Some 1500 \<and>
   presets ''perspective'' =
     Some \<lparr>preset_pitch = 60, preset_bearing = - 30, preset_zoom = 11.2, preset_transitionDuration = 1800\<rparr>"
proof -
  have h: "\<not> is3DEnabled (run_callback ClearAnimating (toggle3DMode MapPage_init))"
    by (simp add: toggle3DMode_def MapPage_init_def setTimeout_def Let_def)
  have q: "presets ''perspective'' =
     Some \<lparr>preset_pitch = 60, preset_bearing = - 30, preset_zoom = 11.2, preset_transitionDuration = 1800\<rparr>"
    by (simp add: presets_def)
  note t = C5_setViewMode_in_2D [OF h, of "''perspective''" "''perspective''"]
  from t have e: "is3DEnabled (setViewMode ''perspective'' (run_callback ClearAnimating (toggle3DMode MapPage_init)))"
    by blast
  from t have v: "viewState (setViewMode ''perspective'' (run_callback ClearAnimating (toggle3DMode MapPage_init))) =
           (viewState (run_callback ClearAnimating (toggle3DMode MapPage_init)))\<lparr>pitch := 45, bearing := - 30, zoom := 11.2,
                         transitionDuration := Some 1500, transitionEasing := Some ToggleEasing\<rparr>"
    by blast
  have p: "pitch (viewState (setViewMode ''perspective'' (run_callback ClearAnimating (toggle3DMode MapPage_init)))) = 45"
    unfolding v by simp
  have d: "transitionDuration (viewState (setViewMode ''perspective'' (run_callback ClearAnimating (toggle3DMode MapPage_init)))) = Some 1500"
    unfolding v by simp
  from h e p d q show ?thesis by blast
qed

text \<open>
  Claim C6, as amended. From 3D mode, a toggle leads to 2D mode with the view mode
  \<open>top-down\<close>; once the toggle's timeout has cleared the animation flag, a second toggle
  leads back to 3D mode and itself sets the view mode to \<open>perspective\<close>.
\<close>

theorem C6_toggle_round_trip:
  assumes "is3DEnabled s"
  shows "\<not> is3DEnabled (toggle3DMode s) \<and>
         currentViewMode (toggle3DMode s) = ''top-down'' \<and>
         is3DEnabled (toggle3DMode (run_callback ClearAnimating (toggle3DMode s))) \<and>
         currentViewMode (toggle3DMode (run_callback ClearAnimating (toggle3DMode s))) = ''perspective''"
proof -
  note down = toggle3DMode_from_3D [OF assms]
  from down(1) have "\<not> is3DEnabled (run_callback ClearAnimating (toggle3DMode s))"
    by simp
  from toggle3DMode_from_2D [OF this] down show ?thesis
    by simp
qed

text \<open>
  Witness of C6 (amended), from the initial page, which is in 3D mode.
\<close>

theorem C6_toggle_round_trip_witness:
  "is3DEnabled MapPage_init \<and>
   \<not> is3DEnabled (toggle3DMode MapPage_init) \<and>
   currentViewMode (toggle3DMode MapPage_init) = ''top-down'' \<and>
   is3DEnabled (toggle3DMode (run_callback ClearAnimating (toggle3DMode MapPage_init))) \<and>
   currentViewMode (toggle3DMode (run_callback ClearAnimating (toggle3DMode MapPage_init))) = ''perspective''"
proof -
  have h: "is3DEnabled MapPage_init" by (simp add: MapPage_init_def)
  from C6_toggle_round_trip [OF h] h show ?thesis by simp
qed

text \<open>
  Counterexample to C6 as stated: after the second toggle the view mode is not left alone
  until a button is pressed; line 39 has set it to \<open>perspective\<close>.
\<close>

theorem C6_counterexample:
  "currentViewMode (toggle3DMode MapPage_init) = ''top-down'' \<and>
   currentViewMode (toggle3DMode (run_callback ClearAnimating (toggle3DMode MapPage_init))) = ''perspective'' \<and>
   currentViewMode (toggle3DMode (run_callback ClearAnimating (toggle3DMode MapPage_init))) \<noteq>
     currentViewMode (toggle3DMode MapPage_init)"
  by (simp add: toggle3DMode_def MapPage_init_def setTimeout_def Let_def)

text \<open>
  Claim C9, as amended. From a pitch within 0 and 85, every nudge leaves the pitch within
  0 and 85: tilt up sets it to \<open>min (pitch + 15) 85\<close>, tilt down to
  \<open>max (pitch - 15) 0\<close>, and neither changes the bearing; a rotation changes the bearing
  by 45 degrees either way and leaves the pitch. A tilt takes 600 ms and a rotation 800 ms,
  and the curve of each is the quadratic ease-out \<open>t (2 - t) = 1 - (1 - t)\<^sup>2\<close>, which
  on the unit interval is never behind uniform progress.
\<close>

theorem C9_nudges:
  assumes "0 \<le> pitch v" and "pitch v \<le> 85"
  shows "0 \<le> pitch (nudge_view n v) \<and> pitch (nudge_view n v) \<le> 85 \<and>
         pitch (tilt_up v) = min (pitch v + 15) 85 \<and>
         pitch (tilt_down v) = max (pitch v - 15) 0 \<and>
         bearing (tilt_up v) = bearing v \<and> bearing (tilt_down v) = bearing v \<and>
         bearing (rotate_left v) = bearing v - 45 \<and> pitch (rotate_left v) = pitch v \<and>
         bearing (rotate_right v) = bearing v + 45 \<and> pitch (rotate_right v) = pitch v \<and>
         transitionDuration (nudge_view n v) = Some (if n = TiltUp \<or> n = TiltDown then 600 else 800) \<and>
         transitionEasing (nudge_view n v) = Some NudgeEasing \<and>
         longitude (nudge_view n v) = longitude v \<and> latitude (nudge_view n v) = latitude v \<and>
         zoom (nudge_view n v) = zoom v \<and>
         (\<forall>t. ease NudgeEasing t = 1 - (1 - t) ^ 2) \<and>
         (\<forall>t. 0 \<le> t \<and> t \<le> 1 \<longrightarrow> t \<le> ease NudgeEasing t \<and> ease NudgeEasing t \<le> 1)"
proof -
  have e1: "ease NudgeEasing t = 1 - (1 - t) ^ 2" for t
    by (simp add: power2_eq_square algebra_simps)
  have e2: "t \<le> ease NudgeEasing t \<and> ease NudgeEasing t \<le> 1" if "0 \<le> t" "t \<le> 1" for t
  proof -
    have "ease NudgeEasing t - t = t * (1 - t)" by (simp add: algebra_simps)
    moreover have "0 \<le> t * (1 - t)" using that by simp
    ultimately have a: "t \<le> ease NudgeEasing t" by linarith
    have "0 \<le> (1 - t) ^ 2" by simp
    with e1 [of t] have "ease NudgeEasing t \<le> 1" by linarith
    with a show ?thesis by simp
  qed
  have n: "0 \<le> pitch (nudge_view n v) \<and> pitch (nudge_view n v) \<le> 85 \<and>
           transitionDuration (nudge_view n v) = Some (if n = TiltUp \<or> n = TiltDown then 600 else 800) \<and>
           transitionEasing (nudge_view n v) = Some NudgeEasing \<and>
           longitude (nudge_view n v) = longitude v \<and> latitude (nudge_view n v) = latitude v \<and>
           zoom (nudge_view n v) = zoom v"
    using assms by (cases n) (simp_all add: rotate_left_def rotate_right_def tilt_up_def tilt_down_def)
  have r: "pitch (tilt_up v) = min (pitch v + 15) 85 \<and>
         pitch (tilt_down v) = max (pitch v - 15) 0 \<and>
         bearing (tilt_up v) = bearing v \<and> bearing (tilt_down v) = bearing v \<and>
         bearing (rotate_left v) = bearing v - 45 \<and> pitch (rotate_left v) = pitch v \<and>
         bearing (rotate_right v) = bearing v + 45 \<and> pitch (rotate_right v) = pitch v"
    by (simp add: rotate_left_def rotate_right_def tilt_up_def tilt_down_def)
  from e1 have e1': "\<forall>t. ease NudgeEasing t = 1 - (1 - t) ^ 2" by blast
  from e2 have e2': "\<forall>t. 0 \<le> t \<and> t \<le> 1 \<longrightarrow> t \<le> ease NudgeEasing t \<and> ease NudgeEasing t \<le> 1" by blast
  from n r e1' e2' show ?thesis by (intro conjI) (elim conjE, assumption)+
qed

text \<open>
  Counterexample to C9 as stated: the curve of a nudge does not ease in. A quarter of the
  way through the time it has covered seven sixteenths of the way.
\<close>

theorem C9_counterexample:
  "transitionEasing (tilt_up (viewState MapPage_init)) = Some NudgeEasing \<and>
   ease NudgeEasing (1 / 4) = 7 / 16 \<and>
   \<not> spec_ease_in_out (ease NudgeEasing)"
proof -
  have a: "ease NudgeEasing (1 / 4) = 7 / 16" by simp
  have b: "\<not> spec_ease_in_out (ease NudgeEasing)"
  proof
    assume "spec_ease_in_out (ease NudgeEasing)"
    then have "\<forall>t. 0 \<le> t \<and> t \<le> 1 / 2 \<longrightarrow> ease NudgeEasing t \<le> t"
      by (simp add: spec_ease_in_out_def)
    then have "(0::real) \<le> 1 / 4 \<and> (1::real) / 4 \<le> 1 / 2 \<longrightarrow> ease NudgeEasing (1 / 4) \<le> 1 / 4"
      by (rule spec)
    then show False by simp
  qed
  have c: "transitionEasing (tilt_up (viewState MapPage_init)) = Some NudgeEasing"
    by (simp add: tilt_up_def)
  from a b c show ?thesis by blast
qed



text \<open>The usual quadratic ease-in-out curve meets the specification's notion.\<close>

lemma spec_ease_in_out_satisfiable:
  "spec_ease_in_out (\<lambda>t. if t < 1 / 2 then 2 * t * t else - 1 + (4 - 2 * t) * t)"
proof -
  have a: "2 * t * t \<le> t" if "0 \<le> t" "t \<le> 1 / 2" for t :: real
  proof -
    have "t * (2 * t) \<le> t * 1" using that by (intro mult_left_mono) simp_all
    then show ?thesis by (simp add: mult.commute mult.left_commute)
  qed
  have b: "t \<le> - 1 + (4 - 2 * t) * t" if "1 / 2 \<le> t" "t \<le> 1" for t :: real
  proof -
    have "0 \<le> (2 * t - 1) * (1 - t)" using that by (intro mult_nonneg_nonneg) simp_all
    then show ?thesis by (simp add: algebra_simps)
  qed
  have c: "- 1 + (4 - 2 * t) * t \<le> t" if "t = 1 / 2" for t :: real
    unfolding that by simp
  have "(if t < 1 / 2 then 2 * t * t else - 1 + (4 - 2 * t) * t) \<le> t" if "0 \<le> t" "t \<le> 1 / 2" for t :: real
  proof (cases "t < 1 / 2")
    case True
    with a [OF that] show ?thesis by simp
  next
    case False
    with that have "t = 1 / 2" by simp
    from c [OF this] False show ?thesis by simp
  qed
  moreover have "t \<le> (if t < 1 / 2 then 2 * t * t else - 1 + (4 - 2 * t) * t)" if "1 / 2 \<le> t" "t \<le> 1" for t :: real
    using b [OF that] that by simp
  ultimately show ?thesis
    unfolding spec_ease_in_out_def by blast
qed

text \<open>
  Witness of C9 (amended), from a pitch of 80: tilting up stops at 85.
\<close>

theorem C9_nudges_witness:
  "(0::real) \<le> 80 \<and> (80::real) \<le> 85 \<and>
   pitch (tilt_up ((viewState MapPage_init)\<lparr>pitch := 80\<rparr>)) = 85 \<and>
   pitch (tilt_down ((viewState MapPage_init)\<lparr>pitch := 80\<rparr>)) = 65 \<and>
   bearing (rotate_left ((viewState MapPage_init)\<lparr>pitch := 80\<rparr>)) = - 45 \<and>
   bearing (rotate_right ((viewState MapPage_init)\<lparr>pitch := 80\<rparr>)) = 45 \<and>
   pitch (rotate_right ((viewState MapPage_init)\<lparr>pitch := 80\<rparr>)) = 80 \<and>
   transitionDuration (nudge_view TiltUp ((viewState MapPage_init)\<lparr>pitch := 80\<rparr>)) = Some 600 \<and>
   transitionDuration (nudge_view RotateLeft ((viewState MapPage_init)\<lparr>pitch := 80\<rparr>)) = Some 800"
proof -
  have h1: "0 \<le> pitch ((viewState MapPage_init)\<lparr>pitch := 80\<rparr>)" by simp
  have h2: "pitch ((viewState MapPage_init)\<lparr>pitch := 80\<rparr>) \<le> 85" by simp
  have b: "bearing (viewState MapPage_init) = 0" by (simp add: MapPage_init_def)
  from C9_nudges [OF h1 h2, of TiltUp] C9_nudges [OF h1 h2, of RotateLeft] b
  show ?thesis by simp
qed

end
